theory Spec2Isabelle
  imports Main "HOL-Library.Multiset" "HOL-Library.Char_ord" "HOL-Library.List_Lexorder"
begin

section \<open>JavaScript values the path-parameter parser works on\<close>

text \<open>
  The parser returns \<open>Result\<close> values (\<open>ok\<close>/\<open>err\<close> of \<open>../util\<close>); a call of one of
  ts-morph's \<open>...OrThrow\<close> accessors, or the conversion of a parsed value to a string,
  either returns or throws, which is a \<open>Completion\<close>.
  Strings are lists of 8-bit characters: a character is a code unit below 256. Property
  names that pass the name check are ASCII, so nothing is lost for them.
\<close>

datatype ('a, 'e) Result = Ok 'a | Err 'e

datatype 'a Completion = Throws | Returns 'a

record Locus =
  filePath :: string
  position :: nat

datatype ParserError =
    ParserError string Locus
  | OptionalNotAllowedError string Locus

subsection \<open>String operations of the runtime\<close>

abbreviation newline :: char where
  "newline \<equiv> CHR 0x0A"

abbreviation dquote :: char where
  "dquote \<equiv> CHR 0x22"

text \<open>\<open>xs[i]\<close>: reading past the end of an array gives \<open>undefined\<close>.\<close>

definition at :: "'a list \<Rightarrow> nat \<Rightarrow> 'a option" where
  "at xs i = (if i < length xs then Some (xs ! i) else None)"

text \<open>\<open>s.split(sep)\<close> for a one-character separator: always at least one piece.\<close>

fun split :: "char \<Rightarrow> string \<Rightarrow> string list" where
  "split sep [] = [[]]"
| "split sep (c # cs) =
     (if c = sep then [] # split sep cs
      else (case split sep cs of
              [] \<Rightarrow> [[c]]
            | p # ps \<Rightarrow> (c # p) # ps))"

text \<open>
  White space as \<open>String.prototype.trim\<close> strips it, among the code units below 256:
  tab, line feed, vertical tab, form feed, carriage return, space and the no-break space.
\<close>

definition isWhiteSpace :: "char \<Rightarrow> bool" where
  "isWhiteSpace c =
     (c = CHR 0x09 \<or> c = CHR 0x0A \<or> c = CHR 0x0B \<or> c = CHR 0x0C \<or> c = CHR 0x0D
      \<or> c = CHR 0x20 \<or> c = CHR 0xA0)"

definition trim :: "string \<Rightarrow> string" where
  "trim s = rev (dropWhile isWhiteSpace (rev (dropWhile isWhiteSpace s)))"

definition startsWith :: "string \<Rightarrow> char \<Rightarrow> bool" where
  "startsWith s c = (case s of [] \<Rightarrow> False | x # xs \<Rightarrow> x = c)"

definition endsWith :: "string \<Rightarrow> char \<Rightarrow> bool" where
  "endsWith s c = (case rev s of [] \<Rightarrow> False | x # xs \<Rightarrow> x = c)"

definition isDigit :: "char \<Rightarrow> bool" where
  "isDigit c = (CHR ''0'' \<le> c \<and> c \<le> CHR ''9'')"

text \<open>The class \<open>\w\<close> of a regular expression: ASCII letters, digits and the underscore.\<close>

definition isWordChar :: "char \<Rightarrow> bool" where
  "isWordChar c =
     ((CHR ''a'' \<le> c \<and> c \<le> CHR ''z'') \<or> (CHR ''A'' \<le> c \<and> c \<le> CHR ''Z'')
      \<or> isDigit c \<or> c = CHR ''_'')"

text \<open>\<open>/^-?\d+$/.test(s)\<close>: an optional minus sign, then one digit or more, and nothing else.\<close>

definition matchesInteger :: "string \<Rightarrow> bool" where
  "matchesInteger s =
     (case s of
        [] \<Rightarrow> False
      | c # cs \<Rightarrow>
          if c = CHR ''-'' then cs \<noteq> [] \<and> list_all isDigit cs
          else list_all isDigit (c # cs))"

text \<open>\<open>/^[\w-]*$/.test(s)\<close>: word characters and hyphens only; the empty string matches.\<close>

definition matchesName :: "string \<Rightarrow> bool" where
  "matchesName s = list_all (\<lambda>c. isWordChar c \<or> c = CHR ''-'') s"

text \<open>
  Three operations of the runtime act on a parsed example value: \<open>JSON.parse\<close> (which
  throws a SyntaxError on text that is not JSON: \<open>None\<close>), the conversion to a string
  that \<open>RegExp.prototype.test\<close> applies to its argument (which throws a TypeError on an
  object that has no primitive value, such as the one parsed from \<open>{"toString":1}\<close>:
  \<open>None\<close>), and \<open>typeof\<close>. They are the platform's, not the repository's, so the parser
  takes them as a parameter. Every theorem about the parser holds for any such runtime.
\<close>

record 'v Runtime =
  JSON_parse :: "string \<Rightarrow> 'v option"
  toString :: "'v \<Rightarrow> string option"
  typeof :: "'v \<Rightarrow> string"

section \<open>The intermediate representation of a path parameter\<close>

text \<open>
  Modelled from the spec: the \<open>Type\<close> union of \<open>../types\<close> and the string tags of its
  \<open>TypeKind\<close> enum, which are not among the sources. The spec lists the kinds STRING,
  INT32, INT64, FLOAT, DOUBLE, BOOLEAN, array-of-Type, object and type-reference, and pairs
  BOOLEAN with the category \<open>boolean\<close> and STRING with \<open>string\<close>, every kind but the four
  numeric ones being "left as-is".
\<close>

datatype TypeKind = STRING | INT32 | INT64 | FLOAT | DOUBLE | BOOLEAN | ARRAY | OBJECT | REFERENCE

datatype Type =
    StringType | Int32Type | Int64Type | FloatType | DoubleType | BooleanType
  | ArrayType Type | ObjectType | ReferenceType string

fun kind :: "Type \<Rightarrow> TypeKind" where
  "kind StringType = STRING"
| "kind Int32Type = INT32"
| "kind Int64Type = INT64"
| "kind FloatType = FLOAT"
| "kind DoubleType = DOUBLE"
| "kind BooleanType = BOOLEAN"
| "kind (ArrayType t) = ARRAY"
| "kind ObjectType = OBJECT"
| "kind (ReferenceType n) = REFERENCE"

fun kindTag :: "TypeKind \<Rightarrow> string" where
  "kindTag STRING = ''string''"
| "kindTag INT32 = ''int32''"
| "kindTag INT64 = ''int64''"
| "kindTag FLOAT = ''float''"
| "kindTag DOUBLE = ''double''"
| "kindTag BOOLEAN = ''boolean''"
| "kindTag ARRAY = ''array''"
| "kindTag OBJECT = ''object''"
| "kindTag REFERENCE = ''reference''"

record 'v Example =
  exampleName :: string
  exampleValue :: 'v

record 'v PathParam =
  paramName :: string
  paramType :: Type
  description :: "string option"
  examples :: "'v Example list option"

section \<open>The declaration as ts-morph shows it to the parser\<close>

text \<open>
  A JSDoc block has a description and tags; a tag has a name and a comment, which
  \<open>getComment()\<close> gives as a string or \<open>undefined\<close>.
\<close>

record JSDoc =
  docDescription :: string
  docTags :: "(string \<times> string option) list"

text \<open>
  A property signature: what \<open>getPropertyName\<close>, \<open>hasQuestionToken\<close> (with the token's
  position), \<open>getTypeNodeOrThrow\<close> (\<open>None\<close>: it throws), \<open>getJsDoc\<close>, the source file's path
  and \<open>getPos\<close> return for it.
\<close>

record 'tn PropertySignature =
  propertyName :: string
  propertyQuestionToken :: "nat option"
  propertyTypeNode :: "'tn option"
  propertyJsDoc :: "JSDoc option"
  propertyFile :: string
  propertyPos :: nat

text \<open>
  A parameter declaration: the names of its decorators, its question token, the
  properties of its type when that is a type literal (\<open>None\<close>:
  \<open>getParameterTypeAsTypeLiteralOrThrow\<close> throws) and its file.
\<close>

record 'tn ParameterDeclaration =
  decorators :: "string list"
  parameterQuestionToken :: "nat option"
  parameterTypeLiteral :: "'tn PropertySignature list option"
  parameterFile :: string

text \<open>
  The two collaborators that are not among the sources, \<open>parseType\<close> of the type parser
  and \<open>isPathParamTypeSafe\<close> of \<open>../http\<close>, are parameters, with the type table and the
  loci table they read.
\<close>

record ('tn, 'tt, 'lt) Collaborators =
  parseType :: "'tn \<Rightarrow> 'tt \<Rightarrow> 'lt \<Rightarrow> (Type, ParserError) Result"
  isPathParamTypeSafe :: "Type \<Rightarrow> 'tt \<Rightarrow> bool"

section \<open>The path-parameter parser\<close>

definition propertyLocus :: "'tn PropertySignature \<Rightarrow> Locus" where
  "propertyLocus p = \<lparr>filePath = propertyFile p, position = propertyPos p\<rparr>"

subsection \<open>extractPathParamName\<close>

definition extractPathParamName :: "'tn PropertySignature \<Rightarrow> (string, ParserError) Result" where
  "extractPathParamName p =
     (let name = propertyName p in
      if \<not> matchesName name then
        Err (ParserError
          ''@pathParams property name may only contain alphanumeric, underscore and hyphen characters''
          (propertyLocus p))
      else if length name = 0 then
        Err (ParserError ''@pathParams property name must not be empty'' (propertyLocus p))
      else Ok name)"

subsection \<open>extractPathParamType\<close>

definition extractPathParamType ::
  "('tn, 'tt, 'lt) Collaborators \<Rightarrow> 'tn PropertySignature \<Rightarrow> 'tt \<Rightarrow> 'lt
     \<Rightarrow> (Type, ParserError) Result Completion" where
  "extractPathParamType co p typeTable lociTable =
     (case propertyTypeNode p of
        None \<Rightarrow> Throws
      | Some typeNode \<Rightarrow>
          (case parseType co typeNode typeTable lociTable of
             Err e \<Rightarrow> Returns (Err e)
           | Ok t \<Rightarrow>
               if \<not> isPathParamTypeSafe co t typeTable then
                 Returns (Err (ParserError
                   ''path parameter type may only be a URL-safe type, or an array of URL-safe types''
                   (propertyLocus p)))
               else Returns (Ok t)))"

subsection \<open>extractPathParamExamples\<close>

text \<open>
  The callback given to \<open>rawExamples.every\<close> assigns \<open>exampleError\<close> and pushes to
  \<open>examples\<close>: both are its state. What it returns is a boolean or, in the branch of the
  unquoted string example, the \<open>err(...)\<close> object itself; \<open>every\<close> goes on exactly when
  the returned value is truthy, and an object is. After the first check of the callback
  both lines of the example are defined and not empty.
\<close>

datatype CallbackReturn = ReturnBoolean bool | ReturnObject ParserError

fun truthy :: "CallbackReturn \<Rightarrow> bool" where
  "truthy (ReturnBoolean b) = b"
| "truthy (ReturnObject e) = True"

fun every :: "('s \<Rightarrow> 'a \<Rightarrow> CallbackReturn \<times> 's) \<Rightarrow> 's \<Rightarrow> 'a list \<Rightarrow> 's" where
  "every f s [] = s"
| "every f s (x # xs) =
     (case f s x of (r, s') \<Rightarrow> if truthy r then every f s' xs else s')"

text \<open>A string or \<open>undefined\<close> is falsy when it is \<open>undefined\<close> or empty.\<close>

fun falsy :: "string option \<Rightarrow> bool" where
  "falsy None = True"
| "falsy (Some s) = (s = [])"

text \<open>
  The two lines of an example: \<open>example?.split("\n")[0]?.trim()\<close> and
  \<open>example?.split("\n")[1]?.trim()\<close>.
\<close>

definition nameLine :: "string option \<Rightarrow> string option" where
  "nameLine example = map_option trim (Option.bind example (\<lambda>e. at (split newline e) 0))"

definition valueLine :: "string option \<Rightarrow> string option" where
  "valueLine example = map_option trim (Option.bind example (\<lambda>e. at (split newline e) 1))"

definition exampleCallback ::
  "'v Runtime \<Rightarrow> Type \<Rightarrow> Locus
     \<Rightarrow> ParserError option \<times> 'v Example list \<Rightarrow> string option
     \<Rightarrow> CallbackReturn \<times> (ParserError option \<times> 'v Example list)" where
  "exampleCallback rt ty loc st example =
     (let exampleError = fst st;
          collected = snd st;
          name = nameLine example;
          val = valueLine example
      in
      if falsy name \<or> falsy val then
        (ReturnBoolean False,
         (Some (ParserError ''@pathParams malformed example'' loc), collected))
      else if list_ex (\<lambda>ex. exampleName ex = the name) collected then
        (ReturnBoolean False,
         (Some (ParserError ''@pathParams duplicate example name'' loc), collected))
      else if kind ty = STRING
              \<and> (\<not> startsWith (the val) dquote \<or> \<not> endsWith (the val) dquote) then
        (ReturnObject (ParserError ''@pathParams string examples must be quoted'' loc),
         (exampleError, collected))
      else
        (case JSON_parse rt (the val) of
           None \<Rightarrow>
             (ReturnBoolean False,
              (Some (ParserError ''could not parse @pathParams example'' loc), collected))
         | Some parsedValue \<Rightarrow>
             (ReturnBoolean True,
              (exampleError,
               collected @ [\<lparr>exampleName = the name, exampleValue = parsedValue\<rparr>]))))"

text \<open>
  What the callback pushes for an example whose name no collected example has: the example
  with its parsed value, or nothing where the example is malformed, is an unquoted example
  of a STRING property, or does not parse. It serves to state what the loop collects.
\<close>

definition collectedExample :: "'v Runtime \<Rightarrow> Type \<Rightarrow> string \<Rightarrow> 'v Example option" where
  "collectedExample rt ty c =
     (case (nameLine (Some c), valueLine (Some c)) of
        (Some n, Some v) \<Rightarrow>
          if n = [] \<or> v = [] then None
          else if kind ty = STRING \<and> (\<not> startsWith v dquote \<or> \<not> endsWith v dquote) then None
          else map_option (\<lambda>parsedValue. \<lparr>exampleName = n, exampleValue = parsedValue\<rparr>)
                 (JSON_parse rt v)
      | _ \<Rightarrow> None)"

text \<open>
  The local function \<open>typeOf\<close> and the map \<open>spotTypesToJSTypesMap\<close>. The test of the
  pattern converts the value to a string first; where that conversion throws, \<open>typeOf\<close>
  throws, and nothing in the parser catches it.
\<close>

definition typeOf :: "'v Runtime \<Rightarrow> 'v \<Rightarrow> string Completion" where
  "typeOf rt v =
     (case toString rt v of
        None \<Rightarrow> Throws
      | Some s \<Rightarrow>
          Returns (if matchesInteger s then ''number''
                   else if typeof rt v = ''boolean'' then ''boolean''
                   else ''string''))"

text \<open>\<open>Array.prototype.map\<close> with a callback that may throw: the first throw ends it.\<close>

fun mapThrowing :: "('a \<Rightarrow> 'b Completion) \<Rightarrow> 'a list \<Rightarrow> 'b list Completion" where
  "mapThrowing f [] = Returns []"
| "mapThrowing f (x # xs) =
     (case f x of
        Throws \<Rightarrow> Throws
      | Returns y \<Rightarrow>
          (case mapThrowing f xs of
             Throws \<Rightarrow> Throws
           | Returns ys \<Rightarrow> Returns (y # ys)))"

fun spotTypesToJSTypesMap :: "TypeKind \<Rightarrow> string option" where
  "spotTypesToJSTypesMap INT32 = Some ''number''"
| "spotTypesToJSTypesMap INT64 = Some ''number''"
| "spotTypesToJSTypesMap FLOAT = Some ''number''"
| "spotTypesToJSTypesMap DOUBLE = Some ''number''"
| "spotTypesToJSTypesMap k = None"

definition typeSpecified :: "Type \<Rightarrow> string" where
  "typeSpecified ty =
     (case spotTypesToJSTypesMap (kind ty) of Some s \<Rightarrow> s | None \<Rightarrow> kindTag (kind ty))"

text \<open>
  \<open>rawExamples\<close>: the comments of the tags named \<open>example\<close>, or \<open>undefined\<close> when the
  property has no JSDoc.
\<close>

definition rawExamples :: "'tn PropertySignature \<Rightarrow> string option list option" where
  "rawExamples p =
     map_option (\<lambda>d. map snd (filter (\<lambda>t. fst t = ''example'') (docTags d))) (propertyJsDoc p)"

text \<open>
  The function returns a result or \<open>undefined\<close> (\<open>None\<close>), or it throws where \<open>typeOf\<close>
  does.
\<close>

definition extractPathParamExamples ::
  "'v Runtime \<Rightarrow> 'tn PropertySignature \<Rightarrow> Type
     \<Rightarrow> ('v Example list, ParserError) Result option Completion" where
  "extractPathParamExamples rt p ty =
     (case rawExamples p of
        None \<Rightarrow> Returns None
      | Some raw \<Rightarrow>
          if None \<in> set raw then
            Returns (Some (Err (ParserError ''@pathParams example must not be empty''
                                  (propertyLocus p))))
          else if length raw > 0 then
            (case every (exampleCallback rt ty (propertyLocus p)) (None, []) raw of
               (Some exampleError, collected) \<Rightarrow> Returns (Some (Err exampleError))
             | (None, collected) \<Rightarrow>
                 (case mapThrowing (\<lambda>ex. typeOf rt (exampleValue ex)) collected of
                    Throws \<Rightarrow> Throws
                  | Returns typeOfExamples \<Rightarrow>
                      if list_ex (\<lambda>typeOfExample. typeOfExample \<noteq> typeSpecified ty)
                           typeOfExamples
                      then Returns (Some (Err (ParserError
                             ''@pathParams type of example must match type of param''
                             (propertyLocus p))))
                      else Returns (Some (Ok collected))))
          else Returns None)"

subsection \<open>extractPathParam\<close>

definition extractPathParam ::
  "('tn, 'tt, 'lt) Collaborators \<Rightarrow> 'v Runtime \<Rightarrow> 'tn PropertySignature \<Rightarrow> 'tt \<Rightarrow> 'lt
     \<Rightarrow> ('v PathParam, ParserError) Result Completion" where
  "extractPathParam co rt p typeTable lociTable =
     (case propertyQuestionToken p of
        Some questionPos \<Rightarrow>
          Returns (Err (OptionalNotAllowedError ''@pathParams property cannot be optional''
            \<lparr>filePath = propertyFile p, position = questionPos\<rparr>))
      | None \<Rightarrow>
          (case extractPathParamName p of
             Err e \<Rightarrow> Returns (Err e)
           | Ok name \<Rightarrow>
               (case extractPathParamType co p typeTable lociTable of
                  Throws \<Rightarrow> Throws
                | Returns (Err e) \<Rightarrow> Returns (Err e)
                | Returns (Ok ty) \<Rightarrow>
                    (let descr = map_option (\<lambda>d. trim (docDescription d)) (propertyJsDoc p) in
                     case extractPathParamExamples rt p ty of
                       Throws \<Rightarrow> Throws
                     | Returns (Some (Err e)) \<Rightarrow> Returns (Err e)
                     | Returns (Some (Ok exs)) \<Rightarrow>
                         Returns (Ok \<lparr>paramName = name, paramType = ty,
                                      description = descr, examples = Some exs\<rparr>)
                     | Returns None \<Rightarrow>
                         Returns (Ok \<lparr>paramName = name, paramType = ty,
                                      description = descr, examples = None\<rparr>)))))"

subsection \<open>parsePathParams\<close>

text \<open>
  \<open>Array.prototype.sort\<close> with a comparison function, as an insertion sort: an element
  goes before the first element that the comparison puts it before (a negative result).
  The comparison of the parser never returns zero; on names that differ pairwise it is
  the usual order of strings, and every sorting algorithm then gives the same array.
\<close>

fun insertBy :: "('a \<Rightarrow> 'a \<Rightarrow> int) \<Rightarrow> 'a \<Rightarrow> 'a list \<Rightarrow> 'a list" where
  "insertBy cmp x [] = [x]"
| "insertBy cmp x (y # ys) = (if cmp x y < 0 then x # y # ys else y # insertBy cmp x ys)"

definition sortBy :: "('a \<Rightarrow> 'a \<Rightarrow> int) \<Rightarrow> 'a list \<Rightarrow> 'a list" where
  "sortBy cmp xs = foldr (insertBy cmp) xs []"

text \<open>The comparison function \<open>(a, b) => (b.name > a.name ? -1 : 1)\<close>.\<close>

definition compareNames :: "'v PathParam \<Rightarrow> 'v PathParam \<Rightarrow> int" where
  "compareNames a b = (if paramName b > paramName a then - 1 else 1)"

text \<open>The loop over the properties: it returns at the first property that fails.\<close>

fun extractAll ::
  "('tn, 'tt, 'lt) Collaborators \<Rightarrow> 'v Runtime \<Rightarrow> 'tt \<Rightarrow> 'lt
     \<Rightarrow> 'tn PropertySignature list \<Rightarrow> 'v PathParam list
     \<Rightarrow> ('v PathParam list, ParserError) Result Completion" where
  "extractAll co rt typeTable lociTable [] pathParams = Returns (Ok pathParams)"
| "extractAll co rt typeTable lociTable (p # ps) pathParams =
     (case extractPathParam co rt p typeTable lociTable of
        Throws \<Rightarrow> Throws
      | Returns (Err e) \<Rightarrow> Returns (Err e)
      | Returns (Ok pathParam) \<Rightarrow>
          extractAll co rt typeTable lociTable ps (pathParams @ [pathParam]))"

definition parsePathParams ::
  "('tn, 'tt, 'lt) Collaborators \<Rightarrow> 'v Runtime \<Rightarrow> 'tn ParameterDeclaration \<Rightarrow> 'tt \<Rightarrow> 'lt
     \<Rightarrow> ('v PathParam list, ParserError) Result Completion" where
  "parsePathParams co rt parameter typeTable lociTable =
     (if ''pathParams'' \<notin> set (decorators parameter) then Throws
      else
        (case parameterQuestionToken parameter of
           Some questionPos \<Rightarrow>
             Returns (Err (OptionalNotAllowedError ''@pathParams parameter cannot be optional''
               \<lparr>filePath = parameterFile parameter, position = questionPos\<rparr>))
         | None \<Rightarrow>
             (case parameterTypeLiteral parameter of
                None \<Rightarrow> Throws
              | Some properties \<Rightarrow>
                  (case extractAll co rt typeTable lociTable properties [] of
                     Throws \<Rightarrow> Throws
                   | Returns (Err e) \<Rightarrow> Returns (Err e)
                   | Returns (Ok pathParams) \<Rightarrow>
                       Returns (Ok (sortBy compareNames pathParams))))))"

section \<open>A concrete runtime for JSON scalars\<close>

text \<open>
  To run the parser on concrete declarations, the three operations of the runtime are
  given for the scalar literals of JSON: \<open>null\<close>, \<open>true\<close>, \<open>false\<close>, a decimal number
  without exponent, and a quoted string without escapes. A number is kept as its sign, the
  digits of its integer part and the digits of its fraction (without trailing zeros), which
  is how \<open>String\<close> prints it; the conversion of a scalar to a string never throws. On any
  other text the scalar reader answers \<open>None\<close>, also
  where \<open>JSON.parse\<close> would accept it (arrays, objects, escapes, exponents, long numbers):
  it is applied to the literals above only.
\<close>

datatype Json =
    JNull
  | JBoolean bool
  | JNumber bool string string
  | JString string

definition dropTrailingZeros :: "string \<Rightarrow> string" where
  "dropTrailingZeros ds = rev (dropWhile (\<lambda>c. c = CHR ''0'') (rev ds))"

definition jsonInteger :: "string \<Rightarrow> bool" where
  "jsonInteger ds = (ds \<noteq> [] \<and> list_all isDigit ds \<and> (length ds = 1 \<or> hd ds \<noteq> CHR ''0''))"

text \<open>
  The numbers that \<open>String\<close> prints digit for digit: at most fifteen significant digits,
  and at most five zeros after the point when the integer part is zero (a smaller number
  is printed with an exponent).
\<close>

definition printedPlainly :: "string \<Rightarrow> string \<Rightarrow> bool" where
  "printedPlainly i f =
     (length i + length f \<le> 15
      \<and> (i \<noteq> ''0'' \<or> length (takeWhile (\<lambda>c. c = CHR ''0'') f) \<le> 5))"

definition parseNumber :: "string \<Rightarrow> Json option" where
  "parseNumber s =
     (let neg = startsWith s (CHR ''-'');
          body = (if neg then tl s else s);
          parts = split (CHR ''.'') body
      in case parts of
           [i] \<Rightarrow>
             if jsonInteger i \<and> printedPlainly i []
             then Some (JNumber (neg \<and> i \<noteq> ''0'') i []) else None
         | [i, f] \<Rightarrow>
             if jsonInteger i \<and> f \<noteq> [] \<and> list_all isDigit f
                \<and> printedPlainly i (dropTrailingZeros f)
             then Some (JNumber (neg \<and> (i \<noteq> ''0'' \<or> dropTrailingZeros f \<noteq> [])) i
                          (dropTrailingZeros f))
             else None
         | _ \<Rightarrow> None)"

text \<open>JSON allows the space, the tab, the line feed and the carriage return around a value.\<close>

definition isJsonSpace :: "char \<Rightarrow> bool" where
  "isJsonSpace c = (c = CHR 0x20 \<or> c = CHR 0x09 \<or> c = CHR 0x0A \<or> c = CHR 0x0D)"

definition parseScalar :: "string \<Rightarrow> Json option" where
  "parseScalar s =
     (let t = rev (dropWhile isJsonSpace (rev (dropWhile isJsonSpace s))) in
      if t = ''null'' then Some JNull
      else if t = ''true'' then Some (JBoolean True)
      else if t = ''false'' then Some (JBoolean False)
      else if startsWith t dquote \<and> endsWith t dquote \<and> length t \<ge> 2 then
        (let inner = butlast (tl t) in
         if list_all (\<lambda>c. c \<noteq> dquote \<and> c \<noteq> CHR 0x5C \<and> CHR 0x20 \<le> c) inner
         then Some (JString inner) else None)
      else parseNumber t)"

fun jsonToString :: "Json \<Rightarrow> string" where
  "jsonToString JNull = ''null''"
| "jsonToString (JBoolean b) = (if b then ''true'' else ''false'')"
| "jsonToString (JNumber neg i f) =
     (if neg then ''-'' else []) @ i @ (if f = [] then [] else CHR ''.'' # f)"
| "jsonToString (JString s) = s"

fun jsonTypeof :: "Json \<Rightarrow> string" where
  "jsonTypeof JNull = ''object''"
| "jsonTypeof (JBoolean b) = ''boolean''"
| "jsonTypeof (JNumber neg i f) = ''number''"
| "jsonTypeof (JString s) = ''string''"

definition scalarRuntime :: "Json Runtime" where
  "scalarRuntime =
     \<lparr>JSON_parse = parseScalar, toString = (\<lambda>v. Some (jsonToString v)), typeof = jsonTypeof\<rparr>"

section \<open>The syntax tree the generator builds\<close>

text \<open>
  The generator calls the factory functions of the TypeScript compiler (\<open>ts.createCall\<close>,
  \<open>ts.createIf\<close>, ...). A node is a value of the datatypes below, one constructor for each
  factory function the generator uses, with the arguments it passes (the arguments it
  always leaves \<open>undefined\<close> are left out). A type node comes from \<open>typeNode\<close> and
  \<open>promiseTypeNode\<close> of \<open>./types\<close>, which are not among the sources: \<open>'tn\<close>.
\<close>

datatype Modifier = ExportKeyword | AsyncKeyword

datatype BinaryOperator =
    EqualsEqualsEqualsToken | AmpersandAmpersandToken | GreaterThanEqualsToken | LessThanToken

datatype NodeFlags = Const

datatype ImportBindings = NamespaceImport string | NamedImports "string list"

datatype 'tn Parameter = Parameter string "'tn option"

datatype 'tn Expression =
    Identifier string
  | StringLiteral string
  | NumericLiteral string
  | PropertyAccess "'tn Expression" string
  | ElementAccess "'tn Expression" "'tn Expression"
  | CallExpression "'tn Expression" "'tn Expression list"
  | NewExpression "'tn Expression" "'tn Expression list"
  | AwaitExpression "'tn Expression"
  | BinaryExpression "'tn Expression" BinaryOperator "'tn Expression"
  | TemplateExpression string "('tn Expression \<times> string) list"
  | ArrowFunction "Modifier list" "'tn Parameter list" "'tn Statement"
and 'tn Statement =
    ImportDeclaration ImportBindings string
  | VariableStatement "(string \<times> 'tn Expression) list" NodeFlags
  | ExpressionStatement "'tn Expression"
  | IfStatement "'tn Expression" "'tn Statement" "'tn Statement option"
  | Block "'tn Statement list" bool
  | ReturnStatement
  | ThrowStatement "'tn Expression"
  | FunctionDeclaration "Modifier list" string "'tn Parameter list" 'tn "'tn Statement"

definition createStrictEquality :: "'tn Expression \<Rightarrow> 'tn Expression \<Rightarrow> 'tn Expression" where
  "createStrictEquality l r = BinaryExpression l EqualsEqualsEqualsToken r"

definition createLogicalAnd :: "'tn Expression \<Rightarrow> 'tn Expression \<Rightarrow> 'tn Expression" where
  "createLogicalAnd l r = BinaryExpression l AmpersandAmpersandToken r"

subsection \<open>Library functions\<close>

text \<open>
  \<open>compact\<close> of lodash drops the \<open>null\<close> entries (a node is never falsy); \<open>flatten\<close>
  is \<open>concat\<close>; \<open>uniq\<close> keeps the first occurrence of each element.
\<close>

fun compact :: "'a option list \<Rightarrow> 'a list" where
  "compact [] = []"
| "compact (None # xs) = compact xs"
| "compact (Some x # xs) = x # compact xs"

definition uniq :: "'a list \<Rightarrow> 'a list" where
  "uniq xs = rev (remdups (rev xs))"

text \<open>
  \<open>String.prototype.toLowerCase\<close> on code units below 256: the letters A to Z and the
  capital letters of Latin-1 (0xC0 to 0xDE but the multiplication sign 0xD7) move up by 32.
\<close>

definition lowerChar :: "char \<Rightarrow> char" where
  "lowerChar c =
     (if (CHR ''A'' \<le> c \<and> c \<le> CHR ''Z'') \<or> (CHR 0xC0 \<le> c \<and> c \<le> CHR 0xDE \<and> c \<noteq> CHR 0xD7)
      then char_of (of_char c + (32 :: nat)) else c)"

definition toLowerCase :: "string \<Rightarrow> string" where
  "toLowerCase s = map lowerChar s"

section \<open>The endpoint IR the generator reads\<close>

text \<open>
  Modelled from the spec: the records \<open>Api\<close> and \<open>Endpoint\<close> of \<open>../../models\<close>, which are
  not among the sources. The spec gives an endpoint a method, a path of static and dynamic
  components, headers by name, a request type, a response type, custom error types by
  status code and a default error type, and the Api its endpoints by name and the type
  table. An object used as a map is the list of its entries in the order in which
  \<open>Object.keys\<close> and \<open>Object.entries\<close> enumerate them; its keys are strings. The types of the
  IR are read by the collaborators only: \<open>'t\<close>.
\<close>

datatype 't PathComponent =
    StaticPathComponent string
  | DynamicPathComponent string 't

record 't Header =
  headerFieldName :: string
  headerType :: 't

record 't Endpoint =
  httpMethod :: string
  path :: "'t PathComponent list"
  headers :: "(string \<times> 't Header) list"
  requestType :: 't
  responseType :: 't
  customErrorTypes :: "(string \<times> 't) list"
  defaultErrorType :: 't

record 't Api =
  endpoints :: "(string \<times> 't Endpoint) list"
  types :: "(string \<times> 't) list"

text \<open>
  The functions the generator imports from files that are not among the sources
  (\<open>../../models\<close>, \<open>../../validator\<close>, \<open>./ts-writer\<close>, \<open>./types\<close>, \<open>./validators\<close>) are
  parameters. \<open>typeReferenceName t\<close> stands for \<open>t.kind === "type-reference" ? t.typeName : null\<close>.
  The numbers of the runtime are parameters too: \<open>'n\<close> is the type of a number, \<open>parseInt\<close>
  is the global function (its result is a double, \<open>NaN\<close> where the string starts with no
  digit), and \<open>numberLiteral\<close> gives the number that an integer literal of the source
  denotes (the generator writes \<open>200\<close>).
\<close>

record ('t, 'tn, 'n) Imports =
  isVoid :: "'t Api \<Rightarrow> 't \<Rightarrow> bool"
  gatherTypes :: "'t Endpoint \<Rightarrow> 't list"
  typeReferenceName :: "'t \<Rightarrow> string option"
  parseInt :: "string \<Rightarrow> 'n"
  numberLiteral :: "int \<Rightarrow> 'n"
  integerConstant :: "'n \<Rightarrow> 't"
  NUMBER :: 't
  objectType :: "(string \<times> 't) list \<Rightarrow> 't"
  unionType :: "'t list \<Rightarrow> 't"
  outputTypeScriptSource :: "'tn Statement list \<Rightarrow> string"
  promiseTypeNode :: "'t \<Rightarrow> 'tn"
  typeNode :: "'t \<Rightarrow> 'tn"
  endpointPropertyTypeName :: "string \<Rightarrow> string \<Rightarrow> string option \<Rightarrow> string"
  validateStatement :: "'tn Expression \<Rightarrow> string \<Rightarrow> string \<Rightarrow> 'tn Statement"
  validatorName :: "string \<Rightarrow> string"

section \<open>The generator of the express server\<close>

abbreviation IMPORTED_CORS_NAME :: string where
  "IMPORTED_CORS_NAME \<equiv> ''cors''"

abbreviation IMPORTED_EXPRESS_NAME :: string where
  "IMPORTED_EXPRESS_NAME \<equiv> ''express''"

abbreviation EXPRESS_APP_NAME :: string where
  "EXPRESS_APP_NAME \<equiv> ''app''"

abbreviation PORT_NAME :: string where
  "PORT_NAME \<equiv> ''PORT''"

abbreviation REQUEST_PARAMETER :: string where
  "REQUEST_PARAMETER \<equiv> ''req''"

abbreviation RESPONSE_PARAMETER :: string where
  "RESPONSE_PARAMETER \<equiv> ''res''"

abbreviation PARSED_REQUEST_VARIABLE :: string where
  "PARSED_REQUEST_VARIABLE \<equiv> ''request''"

abbreviation RESPONSE_VARIABLE :: string where
  "RESPONSE_VARIABLE \<equiv> ''response''"

subsection \<open>generateValidateAndSendResponse\<close>

definition sendStatusAndData :: "'tn Statement list" where
  "sendStatusAndData =
     [ExpressionStatement
        (CallExpression (PropertyAccess (Identifier RESPONSE_PARAMETER) ''status'')
           [PropertyAccess (Identifier RESPONSE_VARIABLE) ''status'']),
      ExpressionStatement
        (CallExpression (PropertyAccess (Identifier RESPONSE_PARAMETER) ''json'')
           [PropertyAccess (Identifier RESPONSE_VARIABLE) ''data''])]"

text \<open>The statement built for one key of \<open>endpoint.customErrorTypes\<close>.\<close>

definition customErrorBranch :: "('t, 'tn, 'n) Imports \<Rightarrow> string \<Rightarrow> string \<Rightarrow> 'tn Statement" where
  "customErrorBranch im endpointName statusCode =
     IfStatement
       (createStrictEquality (PropertyAccess (Identifier RESPONSE_VARIABLE) ''status'')
          (NumericLiteral statusCode))
       (Block
          ([validateStatement im (PropertyAccess (Identifier RESPONSE_VARIABLE) ''data'')
              (validatorName im
                 (endpointPropertyTypeName im endpointName ''customError'' (Some statusCode)))
              (''Invalid error response for status '' @ statusCode)]
           @ sendStatusAndData
           @ [ReturnStatement])
          True)
       None"

definition generateValidateAndSendResponse ::
  "('t, 'tn, 'n) Imports \<Rightarrow> string \<Rightarrow> 't Endpoint \<Rightarrow> 'tn Statement list" where
  "generateValidateAndSendResponse im endpointName endpoint =
     map (customErrorBranch im endpointName) (map fst (customErrorTypes endpoint))
     @ [IfStatement
          (createLogicalAnd
             (BinaryExpression (PropertyAccess (Identifier RESPONSE_VARIABLE) ''status'')
                GreaterThanEqualsToken (NumericLiteral ''200''))
             (BinaryExpression (PropertyAccess (Identifier RESPONSE_VARIABLE) ''status'')
                LessThanToken (NumericLiteral ''300'')))
          (Block
             [validateStatement im (PropertyAccess (Identifier RESPONSE_VARIABLE) ''data'')
                (validatorName im (endpointPropertyTypeName im endpointName ''response'' None))
                ''Invalid successful response'']
             True)
          (Some
             (validateStatement im (PropertyAccess (Identifier RESPONSE_VARIABLE) ''data'')
                (validatorName im (endpointPropertyTypeName im endpointName ''defaultError'' None))
                ''Invalid error response''))]
     @ sendStatusAndData"

subsection \<open>generateEndpointRoute\<close>

text \<open>The string of the route: the parts of the path, joined with the empty string.\<close>

definition routePath :: "'t PathComponent list \<Rightarrow> string" where
  "routePath components =
     concat (map (\<lambda>pathComponent.
        case pathComponent of
          StaticPathComponent content \<Rightarrow> content
        | DynamicPathComponent name t \<Rightarrow> '':'' @ name) components)"

text \<open>The arguments of the call of the endpoint's function.\<close>

definition handlerArguments ::
  "('t, 'tn, 'n) Imports \<Rightarrow> 't Api \<Rightarrow> 't Endpoint \<Rightarrow> 'tn Expression list" where
  "handlerArguments im api endpoint =
     (if isVoid im api (requestType endpoint) then [] else [Identifier PARSED_REQUEST_VARIABLE])
     @ compact (map (\<lambda>pathComponent.
          case pathComponent of
            DynamicPathComponent name t \<Rightarrow> Some (Identifier name)
          | StaticPathComponent content \<Rightarrow> None) (path endpoint))
     @ map (\<lambda>headerName. Identifier headerName) (map fst (headers endpoint))"

text \<open>The statements of the handler that read and validate the request.\<close>

definition requestStatements ::
  "('t, 'tn, 'n) Imports \<Rightarrow> 't Api \<Rightarrow> string \<Rightarrow> 't Endpoint \<Rightarrow> 'tn Statement list" where
  "requestStatements im api endpointName endpoint =
     (let includeRequest = \<not> isVoid im api (requestType endpoint) in
      (if includeRequest then
         [VariableStatement
            [(PARSED_REQUEST_VARIABLE, PropertyAccess (Identifier REQUEST_PARAMETER) ''body'')]
            Const,
          validateStatement im (Identifier PARSED_REQUEST_VARIABLE)
            (validatorName im (endpointPropertyTypeName im endpointName ''request'' None))
            ''Invalid request'']
       else [])
      @ concat (compact (map (\<lambda>pathComponent.
          case pathComponent of
            DynamicPathComponent name t \<Rightarrow>
              Some
                [VariableStatement
                   [(name,
                     PropertyAccess (PropertyAccess (Identifier REQUEST_PARAMETER) ''params'') name)]
                   Const,
                 validateStatement im (Identifier name)
                   (validatorName im
                      (endpointPropertyTypeName im endpointName ''param'' (Some name)))
                   (''Invalid path parameter '' @ name)]
          | StaticPathComponent content \<Rightarrow> None) (path endpoint)))
      @ concat (map (\<lambda>(headerName, header).
          [VariableStatement
             [(headerName,
               ElementAccess (PropertyAccess (Identifier REQUEST_PARAMETER) ''headers'')
                 (StringLiteral (headerFieldName header)))]
             Const,
           validateStatement im (Identifier headerName)
             (validatorName im
                (endpointPropertyTypeName im endpointName ''header'' (Some headerName)))
             (''Invalid header '' @ headerFieldName header)]) (headers endpoint)))"

definition generateEndpointRoute ::
  "('t, 'tn, 'n) Imports \<Rightarrow> 't Api \<Rightarrow> string \<Rightarrow> 't Endpoint \<Rightarrow> 'tn Statement" where
  "generateEndpointRoute im api endpointName endpoint =
     ExpressionStatement
       (CallExpression
          (PropertyAccess (Identifier EXPRESS_APP_NAME) (toLowerCase (httpMethod endpoint)))
          [StringLiteral (routePath (path endpoint)),
           ArrowFunction [AsyncKeyword]
             [Parameter REQUEST_PARAMETER None, Parameter RESPONSE_PARAMETER None]
             (Block
                (requestStatements im api endpointName endpoint
                 @ [VariableStatement
                      [(RESPONSE_VARIABLE,
                        AwaitExpression
                          (CallExpression (Identifier endpointName)
                             (handlerArguments im api endpoint)))]
                      Const]
                 @ generateValidateAndSendResponse im endpointName endpoint)
                True)])"

subsection \<open>generateExpressServerSource\<close>

text \<open>The statements handed to \<open>outputTypeScriptSource\<close>.\<close>

definition expressServerStatements :: "('t, 'tn, 'n) Imports \<Rightarrow> 't Api \<Rightarrow> 'tn Statement list" where
  "expressServerStatements im api =
     [ImportDeclaration (NamespaceImport IMPORTED_CORS_NAME) ''cors'',
      ImportDeclaration (NamespaceImport IMPORTED_EXPRESS_NAME) ''express'',
      ImportDeclaration (NamespaceImport ''validators'') ''./validators'']
     @ map (\<lambda>endpointName.
          ImportDeclaration (NamedImports [endpointName]) (''./endpoints/'' @ endpointName))
         (map fst (endpoints api))
     @ [VariableStatement [(PORT_NAME, NumericLiteral ''3020'')] Const,
        VariableStatement
          [(EXPRESS_APP_NAME, CallExpression (Identifier IMPORTED_EXPRESS_NAME) [])] Const,
        ExpressionStatement
          (CallExpression (PropertyAccess (Identifier EXPRESS_APP_NAME) ''use'')
             [CallExpression (Identifier IMPORTED_CORS_NAME) []]),
        ExpressionStatement
          (CallExpression (PropertyAccess (Identifier EXPRESS_APP_NAME) ''use'')
             [CallExpression (PropertyAccess (Identifier IMPORTED_EXPRESS_NAME) ''json'') []])]
     @ map (\<lambda>(endpointName, endpoint). generateEndpointRoute im api endpointName endpoint)
         (endpoints api)
     @ [ExpressionStatement
          (CallExpression (PropertyAccess (Identifier EXPRESS_APP_NAME) ''listen'')
             [Identifier PORT_NAME,
              ArrowFunction [] []
                (Block
                   [ExpressionStatement
                      (CallExpression (PropertyAccess (Identifier ''console'') ''log'')
                         [TemplateExpression ''Listening on port ''
                            [(Identifier PORT_NAME, [])]])]
                   True)])]"

text \<open>
  A route registration in the generated source: a statement that calls a method of \<open>app\<close>
  with a string literal and an arrow function. It serves to count the registrations.
\<close>

definition isRouteRegistration :: "'tn Statement \<Rightarrow> bool" where
  "isRouteRegistration statement =
     (case statement of
        ExpressionStatement (CallExpression (PropertyAccess (Identifier object) name)
                               [StringLiteral route, ArrowFunction modifiers parameters body]) \<Rightarrow>
          object = EXPRESS_APP_NAME
      | _ \<Rightarrow> False)"

definition generateExpressServerSource :: "('t, 'tn, 'n) Imports \<Rightarrow> 't Api \<Rightarrow> string" where
  "generateExpressServerSource im api = outputTypeScriptSource im (expressServerStatements im api)"

subsection \<open>generateEndpointHandlerSource\<close>

definition getTypeNamesForEndpoint :: "('t, 'tn, 'n) Imports \<Rightarrow> 't Endpoint \<Rightarrow> string list" where
  "getTypeNamesForEndpoint im endpoint =
     uniq (filter (\<lambda>typeName. typeName \<noteq> [])
             (compact (map (typeReferenceName im) (gatherTypes im endpoint))))"

text \<open>The parameters of the generated function.\<close>

definition handlerParameters ::
  "('t, 'tn, 'n) Imports \<Rightarrow> 't Api \<Rightarrow> 't Endpoint \<Rightarrow> 'tn Parameter list" where
  "handlerParameters im api endpoint =
     (if isVoid im api (requestType endpoint) then []
      else [Parameter ''request'' (Some (typeNode im (requestType endpoint)))])
     @ compact (map (\<lambda>pathComponent.
          case pathComponent of
            DynamicPathComponent name t \<Rightarrow> Some (Parameter name (Some (typeNode im t)))
          | StaticPathComponent content \<Rightarrow> None) (path endpoint))
     @ map (\<lambda>(headerName, header). Parameter headerName (Some (typeNode im (headerType header))))
         (headers endpoint)"

text \<open>The members of the union in the declared return type.\<close>

definition handlerResultTypes :: "('t, 'tn, 'n) Imports \<Rightarrow> 't Endpoint \<Rightarrow> 't list" where
  "handlerResultTypes im endpoint =
     [objectType im
        [(''status'', integerConstant im (numberLiteral im 200)),
         (''data'', responseType endpoint)]]
     @ map (\<lambda>(statusCode, t).
          objectType im
            [(''status'', integerConstant im (parseInt im statusCode)), (''data'', t)])
         (customErrorTypes endpoint)
     @ [objectType im [(''status'', NUMBER im), (''data'', defaultErrorType endpoint)]]"

definition endpointHandlerStatements ::
  "('t, 'tn, 'n) Imports \<Rightarrow> 't Api \<Rightarrow> string \<Rightarrow> 't Endpoint \<Rightarrow> 'tn Statement list" where
  "endpointHandlerStatements im api endpointName endpoint =
     (let typeNames = getTypeNamesForEndpoint im endpoint in
      (if length typeNames > 0 then [ImportDeclaration (NamedImports typeNames) ''../types'']
       else [])
      @ [FunctionDeclaration [ExportKeyword, AsyncKeyword] endpointName
           (handlerParameters im api endpoint)
           (promiseTypeNode im (unionType im (handlerResultTypes im endpoint)))
           (Block
              [ThrowStatement
                 (NewExpression (Identifier ''Error'')
                    [StringLiteral (''Endpoint '' @ endpointName @ '' is not yet implemented!'')])]
              True)])"

definition generateEndpointHandlerSource ::
  "('t, 'tn, 'n) Imports \<Rightarrow> 't Api \<Rightarrow> string \<Rightarrow> 't Endpoint \<Rightarrow> string" where
  "generateEndpointHandlerSource im api endpointName endpoint =
     outputTypeScriptSource im (endpointHandlerStatements im api endpointName endpoint)"

section \<open>Sample declarations\<close>

text \<open>
  To run the parser, a stand-in for its two collaborators: a type node is the type it
  denotes, and every type but an object or a reference is safe in a path.
\<close>

definition sampleCollaborators :: "(Type, unit, unit) Collaborators" where
  "sampleCollaborators =
     \<lparr>parseType = (\<lambda>typeNode typeTable lociTable. Ok typeNode),
      isPathParamTypeSafe =
        (\<lambda>t typeTable. case t of ObjectType \<Rightarrow> False | ReferenceType n \<Rightarrow> False | _ \<Rightarrow> True)\<rparr>"

text \<open>
  A property of \<open>api.ts\<close> at position 0 with a name, a question token or none, a type, and
  a JSDoc block of an empty description and one \<open>@example\<close> tag for each given comment.
\<close>

definition sampleProperty ::
  "string \<Rightarrow> nat option \<Rightarrow> Type \<Rightarrow> string list \<Rightarrow> Type PropertySignature" where
  "sampleProperty name questionToken t comments =
     \<lparr>propertyName = name, propertyQuestionToken = questionToken, propertyTypeNode = Some t,
      propertyJsDoc =
        Some \<lparr>docDescription = [], docTags = map (\<lambda>c. (''example'', Some c)) comments\<rparr>,
      propertyFile = ''api.ts'', propertyPos = 0\<rparr>"

text \<open>A parameter of \<open>api.ts\<close> decorated with \<open>@pathParams\<close>, not optional, of a literal type.\<close>

definition sampleParameter :: "Type PropertySignature list \<Rightarrow> Type ParameterDeclaration" where
  "sampleParameter properties =
     \<lparr>decorators = [''pathParams''], parameterQuestionToken = None,
      parameterTypeLiteral = Some properties, parameterFile = ''api.ts''\<rparr>"

text \<open>The comment of an \<open>@example\<close> tag: a name line and a line with the literal.\<close>

definition exampleComment :: "string \<Rightarrow> string \<Rightarrow> string" where
  "exampleComment name literal = name @ [newline] @ literal"

text \<open>A literal in double quotes.\<close>

definition quoted :: "string \<Rightarrow> string" where
  "quoted s = [dquote] @ s @ [dquote]"

text \<open>
  To run the generator, a stand-in for the IR types, the type nodes, the numbers and the
  imported functions: the printer of the source prints nothing, a validator is named after
  the type name, and the validate statement is a call of \<open>validate\<close>. A number is \<open>NaN\<close> or
  a whole number; the stand-in for \<open>parseInt\<close> reads a string of one to fifteen decimal
  digits, which denotes a number that a double holds exactly, and is applied to such
  strings only.
\<close>

datatype SampleNumber = NaN | Whole int

definition sampleParseInt :: "string \<Rightarrow> SampleNumber" where
  "sampleParseInt s =
     (if s \<noteq> [] \<and> list_all isDigit s \<and> length s \<le> 15
      then Whole (foldl (\<lambda>acc c. acc * 10 + (of_char c - 48)) 0 s)
      else NaN)"

datatype SampleType =
    VoidType | Int32 | StringT | NumberT
  | IntegerConstantType SampleNumber
  | ObjectOf "(string \<times> SampleType) list"
  | UnionOf "SampleType list"
  | TypeReference string

datatype SampleTypeNode = TypeNodeOf SampleType | PromiseOf SampleType

definition sampleImports :: "(SampleType, SampleTypeNode, SampleNumber) Imports" where
  "sampleImports =
     \<lparr>isVoid = (\<lambda>api t. t = VoidType),
      gatherTypes = (\<lambda>endpoint. [requestType endpoint, responseType endpoint,
                                    defaultErrorType endpoint]),
      typeReferenceName = (\<lambda>t. case t of TypeReference n \<Rightarrow> Some n | _ \<Rightarrow> None),
      parseInt = sampleParseInt,
      numberLiteral = Whole,
      integerConstant = IntegerConstantType,
      NUMBER = NumberT,
      objectType = ObjectOf,
      unionType = UnionOf,
      outputTypeScriptSource = (\<lambda>statements. []),
      promiseTypeNode = PromiseOf,
      typeNode = TypeNodeOf,
      endpointPropertyTypeName =
        (\<lambda>endpointName property name.
           endpointName @ ''_'' @ property @ (case name of None \<Rightarrow> [] | Some n \<Rightarrow> ''_'' @ n)),
      validateStatement =
        (\<lambda>e validator msg.
           ExpressionStatement
             (CallExpression (Identifier ''validate'') [e, Identifier validator, StringLiteral msg])),
      validatorName = (\<lambda>typeName. ''validate_'' @ typeName)\<rparr>"

text \<open>
  The endpoint of the spec's example: GET on the path \<open>/users/\<close> followed by the INT32
  parameter \<open>id\<close>, no header, no request body; here with a custom error for status 404.
\<close>

definition getUser :: "SampleType Endpoint" where
  "getUser =
     \<lparr>httpMethod = ''GET'',
      path = [StaticPathComponent ''/users/'', DynamicPathComponent ''id'' Int32],
      headers = [],
      requestType = VoidType,
      responseType = TypeReference ''User'',
      customErrorTypes = [(''404'', TypeReference ''NotFound'')],
      defaultErrorType = TypeReference ''Failure''\<rparr>"

text \<open>An endpoint with a request body, two path parameters and two headers.\<close>

definition updateItem :: "SampleType Endpoint" where
  "updateItem =
     \<lparr>httpMethod = ''PUT'',
      path = [StaticPathComponent ''/shops/'', DynamicPathComponent ''shop'' StringT,
              StaticPathComponent ''/items/'', DynamicPathComponent ''item'' Int32],
      headers = [(''token'', \<lparr>headerFieldName = ''x-token'', headerType = StringT\<rparr>),
                 (''trace'', \<lparr>headerFieldName = ''x-trace'', headerType = Int32\<rparr>)],
      requestType = TypeReference ''Item'',
      responseType = TypeReference ''Item'',
      customErrorTypes = [],
      defaultErrorType = TypeReference ''Failure''\<rparr>"

definition sampleApi :: "SampleType Api" where
  "sampleApi = \<lparr>endpoints = [(''getUser'', getUser), (''updateItem'', updateItem)], types = []\<rparr>"

section \<open>Properties of the path-parameter parser\<close>

lemmas parser_defs =
  parsePathParams_def extractPathParam_def extractPathParamName_def extractPathParamType_def
  extractPathParamExamples_def rawExamples_def exampleCallback_def nameLine_def valueLine_def
  typeOf_def typeSpecified_def
  propertyLocus_def sortBy_def compareNames_def

lemmas string_defs =
  matchesName_def matchesInteger_def isWordChar_def isDigit_def trim_def isWhiteSpace_def
  at_def startsWith_def endsWith_def

lemmas sample_defs =
  sampleCollaborators_def sampleProperty_def sampleParameter_def exampleComment_def quoted_def

lemmas scalar_defs =
  scalarRuntime_def parseScalar_def isJsonSpace_def parseNumber_def jsonInteger_def
  printedPlainly_def dropTrailingZeros_def

subsection \<open>The errors of the loop over the examples\<close>

lemma callback_error_message:
  assumes "exampleCallback rt ty loc (err, acc) example = (r, (Some e, acc'))"
  shows "err = Some e
         \<or> e = ParserError ''@pathParams malformed example'' loc
         \<or> e = ParserError ''@pathParams duplicate example name'' loc
         \<or> e = ParserError ''could not parse @pathParams example'' loc"
  using assms
  by (auto simp: exampleCallback_def Let_def split: if_splits option.splits)

lemma every_error_message:
  assumes "every (exampleCallback rt ty loc) (err, acc) raw = (Some e, acc')"
  shows "err = Some e
         \<or> e = ParserError ''@pathParams malformed example'' loc
         \<or> e = ParserError ''@pathParams duplicate example name'' loc
         \<or> e = ParserError ''could not parse @pathParams example'' loc"
  using assms
proof (induction raw arbitrary: err acc)
  case Nil
  then show ?case by simp
next
  case (Cons example raw)
  obtain r err' acc'' where cb: "exampleCallback rt ty loc (err, acc) example = (r, (err', acc''))"
    by (metis prod_cases3)
  show ?case
  proof (cases "truthy r")
    case True
    with Cons.prems cb have "every (exampleCallback rt ty loc) (err', acc'') raw = (Some e, acc')"
      by simp
    from Cons.IH [OF this] show ?thesis
      using callback_error_message [of rt ty loc err acc example r e acc''] cb by auto
  next
    case False
    with Cons.prems cb have "err' = Some e" by simp
    with cb show ?thesis
      using callback_error_message [of rt ty loc err acc example r e acc''] by simp
  qed
qed

lemma never_must_be_quoted:
  "extractPathParamExamples rt p ty
   \<noteq> Returns (Some (Err (ParserError ''@pathParams string examples must be quoted'' l)))"
proof
  assume a: "extractPathParamExamples rt p ty
   = Returns (Some (Err (ParserError ''@pathParams string examples must be quoted'' l)))"
  then obtain raw acc where
    "every (exampleCallback rt ty (propertyLocus p)) (None, []) raw
       = (Some (ParserError ''@pathParams string examples must be quoted'' l), acc)"
    unfolding extractPathParamExamples_def
    by (auto simp: Let_def split: option.splits if_splits prod.splits Completion.splits)
  from every_error_message [OF this] show False by simp
qed

text \<open>
  C1. A property of type STRING with an \<open>@example\<close> tag whose literal is not in double
  quotes should make parsing fail with the error "string examples must be quoted". The
  callback returns the error object instead of storing it and returning \<open>false\<close>, so
  \<open>every\<close> goes on and the example is dropped: for the declaration
  \<open>{ /** @example ex\nabc */ id: String }\<close> the parser returns the path parameter \<open>id\<close> with
  an empty list of examples, whatever the runtime. And whatever the property, its type and
  the runtime, \<open>extractPathParamExamples\<close> never returns that error.
\<close>

theorem C1_unquoted_string_example_is_dropped:
  "parsePathParams sampleCollaborators rt
     (sampleParameter [sampleProperty ''id'' None StringType [exampleComment ''ex'' ''abc'']]) () ()
   = Returns (Ok [\<lparr>paramName = ''id'', paramType = StringType, description = Some [],
                   examples = Some []\<rparr>])
   \<and> extractPathParamExamples runtime p ty
     \<noteq> Returns (Some (Err (ParserError ''@pathParams string examples must be quoted'' l)))"
  using never_must_be_quoted [of runtime p ty l]
  by (simp add: parser_defs string_defs sample_defs)

subsection \<open>What the loop over the examples collects\<close>

lemma callback_collects:
  assumes "collectedExample rt ty c = Some ex" "exampleName ex \<notin> exampleName ` set acc"
  shows "exampleCallback rt ty loc (err, acc) (Some c) = (ReturnBoolean True, (err, acc @ [ex]))"
  using assms
  by (auto simp: collectedExample_def exampleCallback_def list_ex_iff Let_def
           split: option.splits if_splits)

lemma callback_duplicate:
  assumes "nameLine (Some c) = Some n" "n \<noteq> []" "n \<in> exampleName ` set acc"
    "\<not> falsy (valueLine (Some c))"
  shows "exampleCallback rt ty loc (err, acc) (Some c)
         = (ReturnBoolean False, (Some (ParserError ''@pathParams duplicate example name'' loc), acc))"
  using assms
  by (cases "valueLine (Some c)") (auto simp: exampleCallback_def list_ex_iff Let_def)

lemma every_collects:
  "those (map (collectedExample rt ty) cs) = Some exs \<Longrightarrow> distinct (map exampleName (acc @ exs))
   \<Longrightarrow> every (exampleCallback rt ty loc) (err, acc) (map Some cs) = (err, acc @ exs)"
proof (induction cs arbitrary: acc exs)
  case Nil
  then show ?case by simp
next
  case (Cons c cs)
  from Cons.prems(1) obtain ex exs' where
    ex: "collectedExample rt ty c = Some ex" and
    exs': "those (map (collectedExample rt ty) cs) = Some exs'" and
    eq: "exs = ex # exs'"
    by (auto split: option.splits)
  from Cons.prems(2) eq have new: "exampleName ex \<notin> exampleName ` set acc" by auto
  from Cons.prems(2) eq have d: "distinct (map exampleName ((acc @ [ex]) @ exs'))" by auto
  show ?case
    using callback_collects [OF ex new] Cons.IH [OF exs' d] eq by simp
qed

lemma every_duplicate:
  assumes "those (map (collectedExample rt ty) pre) = Some exs"
    and "distinct (map exampleName (acc @ exs))"
    and "nameLine (Some c) = Some n" and "n \<noteq> []"
    and "n \<in> exampleName ` set (acc @ exs)"
    and "\<not> falsy (valueLine (Some c))"
  shows "every (exampleCallback rt ty loc) (err, acc) (map Some (pre @ c # post))
         = (Some (ParserError ''@pathParams duplicate example name'' loc), acc @ exs)"
  using assms
proof (induction pre arbitrary: acc exs)
  case Nil
  then show ?case using callback_duplicate [of c n acc rt ty loc err] by simp
next
  case (Cons p pre)
  from Cons.prems(1) obtain ex exs' where
    ex: "collectedExample rt ty p = Some ex" and
    exs': "those (map (collectedExample rt ty) pre) = Some exs'" and
    eq: "exs = ex # exs'"
    by (auto split: option.splits)
  from Cons.prems(2) eq have new: "exampleName ex \<notin> exampleName ` set acc" by auto
  from Cons.prems(2) eq have d: "distinct (map exampleName ((acc @ [ex]) @ exs'))" by auto
  from Cons.prems(5) eq have m: "n \<in> exampleName ` set ((acc @ [ex]) @ exs')" by auto
  show ?case
    using callback_collects [OF ex new]
      Cons.IH [OF exs' d Cons.prems(3) Cons.prems(4) m Cons.prems(6)] eq
    by simp
qed

lemma collectedExample_name:
  "collectedExample rt ty c = Some ex \<Longrightarrow> nameLine (Some c) = Some (exampleName ex) \<and> exampleName ex \<noteq> []"
  by (auto simp: collectedExample_def split: option.splits if_splits)

lemma those_names_nonempty:
  "those (map (collectedExample rt ty) cs) = Some exs \<Longrightarrow> ex \<in> set exs \<Longrightarrow> exampleName ex \<noteq> []"
proof (induction cs arbitrary: exs)
  case Nil
  then show ?case by simp
next
  case (Cons c cs)
  then show ?case
    by (auto split: option.splits dest: collectedExample_name)
qed

lemma typeSpecified_number: "typeSpecified ty = ''number'' \<longleftrightarrow> kind ty \<in> {INT32, INT64, FLOAT, DOUBLE}"
  by (cases ty) (simp_all add: typeSpecified_def)

lemma typeSpecified_boolean: "typeSpecified ty = ''boolean'' \<longleftrightarrow> kind ty = BOOLEAN"
  by (cases ty) (simp_all add: typeSpecified_def)

lemma typeSpecified_string: "typeSpecified ty = ''string'' \<longleftrightarrow> kind ty = STRING"
  by (cases ty) (simp_all add: typeSpecified_def)

lemma typeOf_Throws: "typeOf rt v = Throws \<longleftrightarrow> toString rt v = None"
  by (simp add: typeOf_def split: option.splits)

lemma mapThrowing_Throws: "mapThrowing f xs = Throws \<longleftrightarrow> list_ex (\<lambda>x. f x = Throws) xs"
  by (induction xs) (auto split: Completion.splits)

lemma mapThrowing_mismatch:
  "mapThrowing f xs = Returns ys \<Longrightarrow>
   list_ex (\<lambda>y. y \<noteq> t) ys \<longleftrightarrow> \<not> list_all (\<lambda>x. f x = Returns t) xs"
  by (induction xs arbitrary: ys) (auto split: Completion.splits)

lemma types_of_examples:
  "(case mapThrowing (\<lambda>ex. typeOf rt (exampleValue ex)) exs of
      Throws \<Rightarrow> Throws
    | Returns typeOfExamples \<Rightarrow>
        if list_ex (\<lambda>typeOfExample. typeOfExample \<noteq> t) typeOfExamples
        then Returns (Some (Err e)) else Returns (Some (Ok exs)))
   = (if list_ex (\<lambda>ex. toString rt (exampleValue ex) = None) exs then Throws
      else if list_all (\<lambda>ex. typeOf rt (exampleValue ex) = Returns t) exs
      then Returns (Some (Ok exs))
      else Returns (Some (Err e)))"
proof (cases "mapThrowing (\<lambda>ex. typeOf rt (exampleValue ex)) exs")
  case Throws
  then show ?thesis
    using mapThrowing_Throws [of "\<lambda>ex. typeOf rt (exampleValue ex)" exs]
    by (simp add: typeOf_Throws)
next
  case (Returns typeOfExamples)
  then have "\<not> list_ex (\<lambda>ex. toString rt (exampleValue ex) = None) exs"
    using mapThrowing_Throws [of "\<lambda>ex. typeOf rt (exampleValue ex)" exs]
    by (simp add: typeOf_Throws)
  then show ?thesis
    using Returns mapThrowing_mismatch [OF Returns, of t] by simp
qed

lemma extractPathParamExamples_collected:
  assumes "rawExamples p = Some (map Some cs)" "cs \<noteq> []"
    and "those (map (collectedExample rt ty) cs) = Some exs"
    and "distinct (map exampleName exs)"
  shows "extractPathParamExamples rt p ty =
           (if list_ex (\<lambda>ex. toString rt (exampleValue ex) = None) exs then Throws
            else if list_all (\<lambda>ex. typeOf rt (exampleValue ex) = Returns (typeSpecified ty)) exs
            then Returns (Some (Ok exs))
            else Returns (Some (Err (ParserError
                   ''@pathParams type of example must match type of param''
                   (propertyLocus p)))))"
proof -
  have loop: "every (exampleCallback rt ty (propertyLocus p)) (None, []) (map Some cs) = (None, [] @ exs)"
    using assms by (intro every_collects) simp_all
  have nonone: "None \<notin> set (map Some cs)" by auto
  show ?thesis
    unfolding extractPathParamExamples_def using assms(1,2) loop nonone
    by (simp add: types_of_examples del: list.map)
qed

lemma extractPathParamExamples_Ok:
  assumes "extractPathParamExamples rt p ty = Returns (Some (Ok exs))"
  shows "list_all (\<lambda>ex. typeOf rt (exampleValue ex) = Returns (typeSpecified ty)) exs"
proof -
  from assms obtain raw where
    "every (exampleCallback rt ty (propertyLocus p)) (None, []) raw = (None, exs)"
    and "(case mapThrowing (\<lambda>ex. typeOf rt (exampleValue ex)) exs of
            Throws \<Rightarrow> Throws
          | Returns typeOfExamples \<Rightarrow>
              if list_ex (\<lambda>typeOfExample. typeOfExample \<noteq> typeSpecified ty) typeOfExamples
              then Returns (Some (Err (ParserError
                     ''@pathParams type of example must match type of param'' (propertyLocus p))))
              else Returns (Some (Ok exs)))
         = Returns (Some (Ok exs))"
    unfolding extractPathParamExamples_def
    by (auto split: option.splits if_splits prod.splits Completion.splits)
  then show ?thesis
    unfolding types_of_examples by (simp split: if_splits)
qed

subsection \<open>The types of the examples\<close>

text \<open>
  C2, as the spec states it, fails on the code. The claim: parsing succeeds only if the
  runtime type of every example is the one of the declared type (a number for INT32,
  INT64, FLOAT and DOUBLE, a boolean for BOOLEAN, a string for STRING), and a FLOAT or
  DOUBLE property accepts every number. The parser infers the category of an example with
  the pattern \<open>/^-?\d+$/\<close> on the value: the number 1.5 is no match, so it counts as a string
  and is refused for a FLOAT property; the string "123" is a match, so it counts as a number
  and is accepted for an INT32 property.
\<close>

theorem C2_runtime_type_counterexample:
  "parseScalar ''1.5'' = Some (JNumber False ''1'' ''5'')
   \<and> jsonTypeof (JNumber False ''1'' ''5'') = ''number''
   \<and> extractPathParamExamples scalarRuntime
        (sampleProperty ''id'' None FloatType [exampleComment ''ex'' ''1.5'']) FloatType
      = Returns (Some (Err (ParserError ''@pathParams type of example must match type of param''
                              \<lparr>filePath = ''api.ts'', position = 0\<rparr>)))
   \<and> parseScalar (quoted ''123'') = Some (JString ''123'')
   \<and> jsonTypeof (JString ''123'') = ''string''
   \<and> extractPathParamExamples scalarRuntime
        (sampleProperty ''id'' None Int32Type [exampleComment ''ex'' (quoted ''123'')]) Int32Type
      = Returns (Some (Ok [\<lparr>exampleName = ''ex'', exampleValue = JString ''123''\<rparr>]))"
  by (simp add: parser_defs string_defs sample_defs scalar_defs)

text \<open>
  C2, amended. Parsing the examples of a property succeeds only if, for every example of
  the result, the category the parser infers for its value is the category of the declared
  type. The inferred category is \<open>number\<close> when the value, converted to a string, is an
  optional minus sign followed by digits only, otherwise \<open>boolean\<close> when the value is a
  boolean, otherwise \<open>string\<close>; the category of the declared type is \<open>number\<close> for INT32,
  INT64, FLOAT and DOUBLE, \<open>boolean\<close> for BOOLEAN and \<open>string\<close> for STRING. When the property
  has at least one example and the loop collects every example (each is well-formed, parses,
  is quoted if the type is STRING, and no name is repeated), and every parsed value can be
  converted to a string, the result is these examples if all categories agree, and otherwise
  the error "type of example must match type of param". Where the conversion of a parsed
  value throws, the parser throws.
\<close>

theorem C2_examples_match_inferred_category:
  "(extractPathParamExamples rt p ty = Returns (Some (Ok exs)) \<longrightarrow>
      list_all (\<lambda>ex. typeOf rt (exampleValue ex) = Returns (typeSpecified ty)) exs)
   \<and> (rawExamples p = Some (map Some cs) \<and> cs \<noteq> []
        \<and> those (map (collectedExample rt ty) cs) = Some collected
        \<and> distinct (map exampleName collected) \<longrightarrow>
      extractPathParamExamples rt p ty =
        (if list_ex (\<lambda>ex. toString rt (exampleValue ex) = None) collected then Throws
         else if list_all (\<lambda>ex. typeOf rt (exampleValue ex) = Returns (typeSpecified ty)) collected
         then Returns (Some (Ok collected))
         else Returns (Some (Err (ParserError
                ''@pathParams type of example must match type of param'' (propertyLocus p))))))
   \<and> (typeSpecified ty = ''number'' \<longleftrightarrow> kind ty \<in> {INT32, INT64, FLOAT, DOUBLE})
   \<and> (typeSpecified ty = ''boolean'' \<longleftrightarrow> kind ty = BOOLEAN)
   \<and> (typeSpecified ty = ''string'' \<longleftrightarrow> kind ty = STRING)
   \<and> (typeOf rt v = Throws \<longleftrightarrow> toString rt v = None)
   \<and> (typeOf rt v = Returns ''number'' \<longleftrightarrow> (\<exists>s. toString rt v = Some s \<and> matchesInteger s))
   \<and> (typeOf rt v = Returns ''boolean'' \<longleftrightarrow>
        (\<exists>s. toString rt v = Some s \<and> \<not> matchesInteger s) \<and> typeof rt v = ''boolean'')
   \<and> (typeOf rt v = Returns ''string'' \<longleftrightarrow>
        (\<exists>s. toString rt v = Some s \<and> \<not> matchesInteger s) \<and> typeof rt v \<noteq> ''boolean'')"
proof -
  have a: "extractPathParamExamples rt p ty = Returns (Some (Ok exs)) \<longrightarrow>
      list_all (\<lambda>ex. typeOf rt (exampleValue ex) = Returns (typeSpecified ty)) exs"
    using extractPathParamExamples_Ok by blast
  have b: "rawExamples p = Some (map Some cs) \<and> cs \<noteq> []
        \<and> those (map (collectedExample rt ty) cs) = Some collected
        \<and> distinct (map exampleName collected) \<longrightarrow>
      extractPathParamExamples rt p ty =
        (if list_ex (\<lambda>ex. toString rt (exampleValue ex) = None) collected then Throws
         else if list_all (\<lambda>ex. typeOf rt (exampleValue ex) = Returns (typeSpecified ty)) collected
         then Returns (Some (Ok collected))
         else Returns (Some (Err (ParserError
                ''@pathParams type of example must match type of param'' (propertyLocus p)))))"
    using extractPathParamExamples_collected by blast
  have c: "(typeOf rt v = Throws \<longleftrightarrow> toString rt v = None)
   \<and> (typeOf rt v = Returns ''number'' \<longleftrightarrow> (\<exists>s. toString rt v = Some s \<and> matchesInteger s))
   \<and> (typeOf rt v = Returns ''boolean'' \<longleftrightarrow>
        (\<exists>s. toString rt v = Some s \<and> \<not> matchesInteger s) \<and> typeof rt v = ''boolean'')
   \<and> (typeOf rt v = Returns ''string'' \<longleftrightarrow>
        (\<exists>s. toString rt v = Some s \<and> \<not> matchesInteger s) \<and> typeof rt v \<noteq> ''boolean'')"
    by (cases "toString rt v") (auto simp: typeOf_def)
  show ?thesis
    using a b c typeSpecified_number typeSpecified_boolean typeSpecified_string by blast
qed

text \<open>
  A FLOAT property with the example 15: the loop collects it, its value converts to the
  string \<open>15\<close>, its inferred category is \<open>number\<close>, and the result is the example.
\<close>

theorem C2_examples_match_inferred_category_witness:
  "extractPathParamExamples scalarRuntime
     (sampleProperty ''id'' None FloatType [exampleComment ''ex'' ''15'']) FloatType
   = Returns (Some (Ok [\<lparr>exampleName = ''ex'', exampleValue = JNumber False ''15'' []\<rparr>]))
   \<and> toString scalarRuntime (JNumber False ''15'' []) = Some ''15''
   \<and> typeOf scalarRuntime (JNumber False ''15'' []) = Returns ''number''
   \<and> typeSpecified FloatType = ''number''"
  using C2_examples_match_inferred_category
    [of scalarRuntime "sampleProperty ''id'' None FloatType [exampleComment ''ex'' ''15'']"
        FloatType "[\<lparr>exampleName = ''ex'', exampleValue = JNumber False ''15'' []\<rparr>]"
        "[exampleComment ''ex'' ''15'']"
        "[\<lparr>exampleName = ''ex'', exampleValue = JNumber False ''15'' []\<rparr>]" "JNumber False ''15'' []"]
  by (simp add: parser_defs string_defs sample_defs scalar_defs collectedExample_def)

subsection \<open>The order of the path parameters\<close>

lemma extractPathParam_name:
  "extractPathParam co rt p tt lt = Returns (Ok pp) \<Longrightarrow> paramName pp = propertyName p"
  by (auto simp: extractPathParam_def extractPathParamName_def Let_def
           split: option.splits Result.splits Completion.splits if_splits)

lemma extractAll_Ok:
  assumes "\<forall>p\<in>set ps. \<exists>pp. extractPathParam co rt p tt lt = Returns (Ok pp)"
  shows "\<exists>pps. extractAll co rt tt lt ps acc = Returns (Ok (acc @ pps))
           \<and> map (\<lambda>pp. Returns (Ok pp)) pps = map (\<lambda>p. extractPathParam co rt p tt lt) ps"
  using assms
proof (induction ps arbitrary: acc)
  case Nil
  then show ?case by simp
next
  case (Cons p ps)
  from Cons.prems obtain pp where pp: "extractPathParam co rt p tt lt = Returns (Ok pp)" by auto
  from Cons.prems have "\<forall>p\<in>set ps. \<exists>pp. extractPathParam co rt p tt lt = Returns (Ok pp)" by simp
  from Cons.IH [OF this, of "acc @ [pp]"] obtain pps where
    "extractAll co rt tt lt ps (acc @ [pp]) = Returns (Ok ((acc @ [pp]) @ pps))"
    "map (\<lambda>pp. Returns (Ok pp)) pps = map (\<lambda>p. extractPathParam co rt p tt lt) ps"
    by blast
  with pp show ?case by (intro exI [of _ "pp # pps"]) simp
qed

lemma mset_insertBy: "mset (insertBy cmp x ys) = add_mset x (mset ys)"
  by (induction ys) simp_all

lemma mset_sortBy: "mset (sortBy cmp xs) = mset xs"
  by (induction xs) (simp_all add: sortBy_def mset_insertBy)

lemma set_insertBy: "set (insertBy cmp x ys) = insert x (set ys)"
  by (induction ys) auto

lemma compareNames_negative: "compareNames a b < 0 \<longleftrightarrow> paramName a < paramName b"
  by (simp add: compareNames_def)

lemma sorted_insertBy:
  assumes "sorted_wrt (\<lambda>a b. paramName a < paramName b) ys"
    and "paramName x \<notin> paramName ` set ys"
  shows "sorted_wrt (\<lambda>a b. paramName a < paramName b) (insertBy compareNames x ys)"
  using assms
proof (induction ys)
  case Nil
  then show ?case by simp
next
  case (Cons y ys)
  show ?case
  proof (cases "paramName x < paramName y")
    case True
    with Cons.prems show ?thesis by (auto simp: compareNames_negative)
  next
    case False
    with Cons.prems have lt: "paramName y < paramName x" by auto
    from Cons have "sorted_wrt (\<lambda>a b. paramName a < paramName b) (insertBy compareNames x ys)"
      by simp
    with False lt Cons.prems show ?thesis
      by (auto simp: compareNames_negative set_insertBy)
  qed
qed

lemma sorted_sortBy:
  "distinct (map paramName xs) \<Longrightarrow>
   sorted_wrt (\<lambda>a b. paramName a < paramName b) (sortBy compareNames xs)"
proof (induction xs)
  case Nil
  then show ?case by (simp add: sortBy_def)
next
  case (Cons x xs)
  then have s: "sorted_wrt (\<lambda>a b. paramName a < paramName b) (sortBy compareNames xs)" by simp
  have "set (sortBy compareNames xs) = set xs"
    using mset_sortBy [of compareNames xs] by (metis set_mset_mset)
  with Cons.prems have "paramName x \<notin> paramName ` set (sortBy compareNames xs)" by auto
  from sorted_insertBy [OF s this] show ?case by (simp add: sortBy_def)
qed

lemma sortBy_unique:
  assumes "distinct (map paramName xs)" "mset ys = mset xs"
    and "sorted_wrt (\<lambda>a b. compareNames a b < 0) ys"
  shows "ys = sortBy compareNames xs"
proof -
  let ?zs = "sortBy compareNames xs"
  have sy: "sorted_wrt (<) (map paramName ys)"
    using assms(3) by (simp add: sorted_wrt_map compareNames_negative)
  have sz: "sorted_wrt (<) (map paramName ?zs)"
    using sorted_sortBy [OF assms(1)] by (simp add: sorted_wrt_map)
  have sets: "set ys = set xs" "set ?zs = set xs"
    using assms(2) mset_sortBy [of compareNames xs] by (metis set_mset_mset)+
  then have "set (map paramName ys) = set (map paramName ?zs)" by simp
  with sy sz have names: "map paramName ys = map paramName ?zs"
    by (metis strict_sorted_iff sorted_distinct_set_unique)
  have "inj_on paramName (set xs)"
    using assms(1) by (simp add: distinct_map)
  with sets have "inj_on paramName (set ys \<union> set ?zs)" by simp
  with names show ?thesis by (simp add: inj_on_map_eq_map)
qed

text \<open>
  C3. For a declaration with the \<open>@pathParams\<close> decorator, not optional, of a literal type
  whose properties all validate and have pairwise distinct names, \<open>parsePathParams\<close>
  returns a list with exactly one path parameter for each property (the results of
  \<open>extractPathParam\<close> on the properties, as a multiset), in strictly ascending
  lexicographic order of name. The list does not depend on the sorting algorithm: it is the
  only arrangement of these path parameters in which the comparison function puts each
  element before every later one.
\<close>

theorem C3_path_params_sorted_by_name:
  assumes "''pathParams'' \<in> set (decorators parameter)"
    and "parameterQuestionToken parameter = None"
    and "parameterTypeLiteral parameter = Some properties"
    and "\<forall>p\<in>set properties. \<exists>pp. extractPathParam co rt p typeTable lociTable = Returns (Ok pp)"
    and "distinct (map propertyName properties)"
  shows "\<exists>pathParams.
           parsePathParams co rt parameter typeTable lociTable = Returns (Ok pathParams)
           \<and> length pathParams = length properties
           \<and> mset (map (\<lambda>pp. Returns (Ok pp)) pathParams)
               = mset (map (\<lambda>p. extractPathParam co rt p typeTable lociTable) properties)
           \<and> mset (map paramName pathParams) = mset (map propertyName properties)
           \<and> sorted_wrt (<) (map paramName pathParams)
           \<and> (\<forall>arranged. mset arranged = mset pathParams
                  \<and> sorted_wrt (\<lambda>a b. compareNames a b < 0) arranged
                \<longrightarrow> arranged = pathParams)"
proof -
  from extractAll_Ok [OF assms(4), of "[]"] obtain pps where
    all: "extractAll co rt typeTable lociTable properties [] = Returns (Ok pps)" and
    each: "map (\<lambda>pp. Returns (Ok pp)) pps
             = map (\<lambda>p. extractPathParam co rt p typeTable lociTable) properties"
    by auto
  let ?sorted = "sortBy compareNames pps"
  have res: "parsePathParams co rt parameter typeTable lociTable = Returns (Ok ?sorted)"
    using assms(1-3) all by (simp add: parsePathParams_def)
  have len: "length pps = length properties"
    using each by (metis length_map)
  have names: "map paramName pps = map propertyName properties"
  proof (rule nth_equalityI)
    show "length (map paramName pps) = length (map propertyName properties)" using len by simp
  next
    fix i assume "i < length (map paramName pps)"
    then have i: "i < length pps" "i < length properties" using len by simp_all
    from each have "map (\<lambda>pp. Returns (Ok pp)) pps ! i
        = map (\<lambda>p. extractPathParam co rt p typeTable lociTable) properties ! i" by simp
    with i have "extractPathParam co rt (properties ! i) typeTable lociTable = Returns (Ok (pps ! i))"
      by simp
    from extractPathParam_name [OF this] i
    show "map paramName pps ! i = map propertyName properties ! i" by simp
  qed
  have m: "mset ?sorted = mset pps" by (rule mset_sortBy)
  have l: "length ?sorted = length properties"
    using m len by (metis size_mset)
  have e: "mset (map (\<lambda>pp. Returns (Ok pp)) ?sorted)
             = mset (map (\<lambda>p. extractPathParam co rt p typeTable lociTable) properties)"
    using m each by (metis mset_map)
  have n: "mset (map paramName ?sorted) = mset (map propertyName properties)"
    using m names by (metis mset_map)
  have s: "sorted_wrt (<) (map paramName ?sorted)"
    using sorted_sortBy [of pps] assms(5) names by (simp add: sorted_wrt_map)
  have d: "distinct (map paramName pps)"
    using assms(5) names by simp
  have u: "\<forall>arranged. mset arranged = mset ?sorted
                  \<and> sorted_wrt (\<lambda>a b. compareNames a b < 0) arranged
                \<longrightarrow> arranged = ?sorted"
    using sortBy_unique [OF d] m by auto
  from res l e n s u show ?thesis by blast
qed

text \<open>The properties \<open>b\<close>, \<open>a\<close>, \<open>c\<close> come back as \<open>a\<close>, \<open>b\<close>, \<open>c\<close>.\<close>

theorem C3_path_params_sorted_by_name_witness:
  "\<exists>pathParams.
     parsePathParams sampleCollaborators scalarRuntime
       (sampleParameter [sampleProperty ''b'' None StringType [],
                         sampleProperty ''a'' None Int32Type [exampleComment ''one'' ''1''],
                         sampleProperty ''c'' None BooleanType []]) () ()
     = Returns (Ok pathParams)
     \<and> length pathParams = 3
     \<and> map paramName pathParams = [''a'', ''b'', ''c'']
     \<and> sorted_wrt (<) (map paramName pathParams)"
  using C3_path_params_sorted_by_name [of "sampleParameter [sampleProperty ''b'' None StringType [],
                         sampleProperty ''a'' None Int32Type [exampleComment ''one'' ''1''],
                         sampleProperty ''c'' None BooleanType []]"
                 "[sampleProperty ''b'' None StringType [],
                         sampleProperty ''a'' None Int32Type [exampleComment ''one'' ''1''],
                         sampleProperty ''c'' None BooleanType []]"
                 sampleCollaborators scalarRuntime "()" "()"]
  by (simp add: parser_defs string_defs sample_defs scalar_defs)

subsection \<open>Optional parameters and properties\<close>

lemma extractPathParam_optional:
  "propertyQuestionToken p = Some q \<Longrightarrow>
   extractPathParam co rt p tt lt
   = Returns (Err (OptionalNotAllowedError ''@pathParams property cannot be optional''
                     \<lparr>filePath = propertyFile p, position = q\<rparr>))"
  by (simp add: extractPathParam_def)

lemma extractAll_first_failure:
  assumes "\<forall>x\<in>set before. \<exists>pp. extractPathParam co rt x tt lt = Returns (Ok pp)"
    and "extractPathParam co rt p tt lt = Returns (Err e)"
  shows "extractAll co rt tt lt (before @ p # after) acc = Returns (Err e)"
  using assms
proof (induction before arbitrary: acc)
  case Nil
  then show ?case by simp
next
  case (Cons x before)
  from Cons.prems(1) obtain pp where "extractPathParam co rt x tt lt = Returns (Ok pp)" by auto
  moreover from Cons have "extractAll co rt tt lt (before @ p # after) (acc @ [pp]) = Returns (Err e)"
    by simp
  ultimately show ?case by simp
qed

lemma extractAll_optional:
  assumes "list_ex (\<lambda>p. propertyQuestionToken p \<noteq> None) ps"
  shows "extractAll co rt tt lt ps acc \<noteq> Returns (Ok pathParams)"
  using assms
proof (induction ps arbitrary: acc)
  case Nil
  then show ?case by simp
next
  case (Cons p ps)
  show ?case
  proof (cases "propertyQuestionToken p")
    case (Some q)
    then show ?thesis by (simp add: extractPathParam_optional)
  next
    case None
    with Cons.prems have "list_ex (\<lambda>p. propertyQuestionToken p \<noteq> None) ps" by simp
    from Cons.IH [OF this] show ?thesis
      by (simp split: Completion.splits Result.splits)
  qed
qed

text \<open>
  C4, as the spec states it, fails on the code. The claim: whenever the parameter or any one
  of its properties is optional, the failure carries an \<open>OptionalNotAllowedError\<close>. The loop
  returns the error of the first property that fails: with a property named \<open>a b\<close> before
  the optional property \<open>id\<close>, the failure is the \<open>ParserError\<close> of the name.
\<close>

theorem C4_earlier_error_counterexample:
  "propertyQuestionToken (sampleProperty ''id'' (Some 12) Int32Type []) = Some 12
   \<and> parsePathParams sampleCollaborators scalarRuntime
        (sampleParameter [sampleProperty ''a b'' None StringType [],
                          sampleProperty ''id'' (Some 12) Int32Type []]) () ()
     = Returns (Err (ParserError
         ''@pathParams property name may only contain alphanumeric, underscore and hyphen characters''
         \<lparr>filePath = ''api.ts'', position = 0\<rparr>))"
  by (simp add: parser_defs string_defs sample_defs scalar_defs)

text \<open>
  C4, amended. For a declaration with the \<open>@pathParams\<close> decorator: if the parameter is
  optional, \<open>parsePathParams\<close> returns the \<open>OptionalNotAllowedError\<close> of the parameter, with
  its file and the position of its question token; if it is not, and a property of its
  literal type is optional while every property before it validates, it returns the
  \<open>OptionalNotAllowedError\<close> of that property, with its file and the position of its
  question token; and whenever the parameter or one of the properties is optional, no list
  of path parameters is returned.
\<close>

theorem C4_optional_not_allowed:
  assumes "''pathParams'' \<in> set (decorators parameter)"
  shows "(parameterQuestionToken parameter = Some q \<longrightarrow>
            parsePathParams co rt parameter typeTable lociTable
            = Returns (Err (OptionalNotAllowedError ''@pathParams parameter cannot be optional''
                              \<lparr>filePath = parameterFile parameter, position = q\<rparr>)))
       \<and> (parameterQuestionToken parameter = None
            \<and> parameterTypeLiteral parameter = Some (before @ p # after)
            \<and> propertyQuestionToken p = Some q'
            \<and> (\<forall>x\<in>set before. \<exists>pp. extractPathParam co rt x typeTable lociTable = Returns (Ok pp)) \<longrightarrow>
            parsePathParams co rt parameter typeTable lociTable
            = Returns (Err (OptionalNotAllowedError ''@pathParams property cannot be optional''
                              \<lparr>filePath = propertyFile p, position = q'\<rparr>)))
       \<and> (parameterQuestionToken parameter \<noteq> None
            \<or> (parameterTypeLiteral parameter = Some properties
                \<and> list_ex (\<lambda>p. propertyQuestionToken p \<noteq> None) properties) \<longrightarrow>
            (\<forall>pathParams. parsePathParams co rt parameter typeTable lociTable
                            \<noteq> Returns (Ok pathParams)))"
proof (intro conjI impI allI)
  assume "parameterQuestionToken parameter = Some q"
  with assms show "parsePathParams co rt parameter typeTable lociTable
            = Returns (Err (OptionalNotAllowedError ''@pathParams parameter cannot be optional''
                              \<lparr>filePath = parameterFile parameter, position = q\<rparr>))"
    by (simp add: parsePathParams_def)
next
  assume a: "parameterQuestionToken parameter = None
            \<and> parameterTypeLiteral parameter = Some (before @ p # after)
            \<and> propertyQuestionToken p = Some q'
            \<and> (\<forall>x\<in>set before. \<exists>pp. extractPathParam co rt x typeTable lociTable = Returns (Ok pp))"
  then have "extractAll co rt typeTable lociTable (before @ p # after) []
      = Returns (Err (OptionalNotAllowedError ''@pathParams property cannot be optional''
                              \<lparr>filePath = propertyFile p, position = q'\<rparr>))"
    by (intro extractAll_first_failure) (simp_all add: extractPathParam_optional)
  with a assms show "parsePathParams co rt parameter typeTable lociTable
            = Returns (Err (OptionalNotAllowedError ''@pathParams property cannot be optional''
                              \<lparr>filePath = propertyFile p, position = q'\<rparr>))"
    by (simp add: parsePathParams_def)
next
  fix pathParams
  assume a: "parameterQuestionToken parameter \<noteq> None
            \<or> (parameterTypeLiteral parameter = Some properties
                \<and> list_ex (\<lambda>p. propertyQuestionToken p \<noteq> None) properties)"
  show "parsePathParams co rt parameter typeTable lociTable \<noteq> Returns (Ok pathParams)"
  proof (cases "parameterQuestionToken parameter")
    case (Some q)
    then show ?thesis by (simp add: parsePathParams_def)
  next
    case None
    with a have lit: "parameterTypeLiteral parameter = Some properties"
      and opt: "list_ex (\<lambda>p. propertyQuestionToken p \<noteq> None) properties" by simp_all
    have "\<And>ps. extractAll co rt typeTable lociTable properties [] \<noteq> Returns (Ok ps)"
      by (rule extractAll_optional [OF opt])
    with None lit show ?thesis
      by (simp add: parsePathParams_def split: Completion.splits Result.splits)
  qed
qed

text \<open>An optional property after a valid one, and an optional parameter.\<close>

theorem C4_optional_not_allowed_witness:
  "parsePathParams sampleCollaborators scalarRuntime
     (sampleParameter [sampleProperty ''a'' None StringType [],
                       sampleProperty ''id'' (Some 12) Int32Type []]) () ()
   = Returns (Err (OptionalNotAllowedError ''@pathParams property cannot be optional''
                     \<lparr>filePath = ''api.ts'', position = 12\<rparr>))
   \<and> parsePathParams sampleCollaborators scalarRuntime
        ((sampleParameter [sampleProperty ''a'' None StringType []])
           \<lparr>parameterQuestionToken := Some 7\<rparr>) () ()
     = Returns (Err (OptionalNotAllowedError ''@pathParams parameter cannot be optional''
                     \<lparr>filePath = ''api.ts'', position = 7\<rparr>))"
  using C4_optional_not_allowed [of "sampleParameter [sampleProperty ''a'' None StringType [],
                       sampleProperty ''id'' (Some 12) Int32Type []]" 0
                 sampleCollaborators scalarRuntime "()" "()"
                 "[sampleProperty ''a'' None StringType []]"
                 "sampleProperty ''id'' (Some 12) Int32Type []" "[]" 12 "[]"]
        C4_optional_not_allowed [of "(sampleParameter [sampleProperty ''a'' None StringType []])
           \<lparr>parameterQuestionToken := Some 7\<rparr>" 7
                 sampleCollaborators scalarRuntime "()" "()" "[]" "sampleProperty ''a'' None StringType []" "[]" 0 "[]"]
  by (simp add: parser_defs string_defs sample_defs scalar_defs)

subsection \<open>Repeated example names\<close>

text \<open>
  C5, as the spec states it, fails on the code. The claim: two \<open>@example\<close> tags with the
  same name line make parsing fail with "duplicate example name". The callback looks for
  the name among the collected examples after its check of the two lines: two tags whose
  comment is the single line \<open>ex\<close> have equal names, and the failure is "malformed example".
\<close>

theorem C5_malformed_first_counterexample:
  "nameLine (Some ''ex'') = nameLine (Some ''ex'') \<and>
   extractPathParamExamples scalarRuntime (sampleProperty ''id'' None Int32Type [''ex'', ''ex'']) Int32Type
   = Returns (Some (Err (ParserError ''@pathParams malformed example''
                           \<lparr>filePath = ''api.ts'', position = 0\<rparr>)))"
  by (simp add: parser_defs string_defs sample_defs scalar_defs)

text \<open>
  C5, amended. If the \<open>@example\<close> tags of a property all have a comment, the loop collects
  every example before a tag \<open>c\<close> (each is well-formed, parses, is quoted if the type is
  STRING, and their names differ), the name line of \<open>c\<close> is the name of one of them and the
  value line of \<open>c\<close> is not empty, then parsing the examples fails with the \<open>ParserError\<close>
  "duplicate example name" at the property.
\<close>

theorem C5_duplicate_example_name:
  assumes "rawExamples p = Some (map Some (pre @ c # post))"
    and "those (map (collectedExample rt ty) pre) = Some exs"
    and "distinct (map exampleName exs)"
    and "nameLine (Some c) = Some n"
    and "n \<in> exampleName ` set exs"
    and "\<not> falsy (valueLine (Some c))"
  shows "extractPathParamExamples rt p ty
         = Returns (Some (Err (ParserError ''@pathParams duplicate example name''
                                 (propertyLocus p))))"
proof -
  from assms(2,5) have ne: "n \<noteq> []"
    using those_names_nonempty by fastforce
  have loop: "every (exampleCallback rt ty (propertyLocus p)) (None, []) (map Some (pre @ c # post))
      = (Some (ParserError ''@pathParams duplicate example name'' (propertyLocus p)), [] @ exs)"
    using assms ne by (intro every_duplicate) simp_all
  have nonone: "None \<notin> set (map Some (pre @ c # post))" by auto
  show ?thesis
    unfolding extractPathParamExamples_def using assms(1) loop nonone
    by (simp del: map_append list.map)
qed

text \<open>Two examples named \<open>first\<close> on an INT32 property.\<close>

theorem C5_duplicate_example_name_witness:
  "extractPathParamExamples scalarRuntime
     (sampleProperty ''id'' None Int32Type [exampleComment ''first'' ''1'', exampleComment ''first'' ''2''])
     Int32Type
   = Returns (Some (Err (ParserError ''@pathParams duplicate example name''
                           \<lparr>filePath = ''api.ts'', position = 0\<rparr>)))"
  using C5_duplicate_example_name [of "sampleProperty ''id'' None Int32Type [exampleComment ''first'' ''1'', exampleComment ''first'' ''2'']"
        "[exampleComment ''first'' ''1'']" "exampleComment ''first'' ''2''" "[]" scalarRuntime Int32Type
        "[\<lparr>exampleName = ''first'', exampleValue = JNumber False ''1'' []\<rparr>]" "''first''"]
  by (simp add: parser_defs string_defs sample_defs scalar_defs collectedExample_def)

subsection \<open>The examples field\<close>

lemma examples_present_iff:
  assumes "extractPathParam co rt p tt lt = Returns (Ok pp)"
  shows "examples pp \<noteq> None \<longleftrightarrow> (\<exists>raw. rawExamples p = Some raw \<and> raw \<noteq> [])"
  using assms
  by (auto simp: extractPathParam_def extractPathParamExamples_def Let_def
           split: option.splits Result.splits Completion.splits if_splits prod.splits)

lemma callback_no_error:
  assumes "exampleCallback rt ty loc (None, acc) example = (r, (None, acc'))"
    and "kind ty \<noteq> STRING"
  shows "truthy r \<and> length acc' = Suc (length acc)"
  using assms
  by (auto simp: exampleCallback_def Let_def split: if_splits option.splits)

lemma callback_keeps_error:
  "exampleCallback rt ty loc (Some e, acc) example = (r, (err', acc')) \<Longrightarrow> err' \<noteq> None"
  by (auto simp: exampleCallback_def Let_def split: if_splits option.splits)

lemma every_keeps_error:
  "every (exampleCallback rt ty loc) (Some e, acc) raw = (err', acc') \<Longrightarrow> err' \<noteq> None"
proof (induction raw arbitrary: e acc)
  case Nil
  then show ?case by auto
next
  case (Cons example raw)
  obtain r err'' acc'' where cb: "exampleCallback rt ty loc (Some e, acc) example = (r, (err'', acc''))"
    by (metis prod_cases3)
  from callback_keeps_error [OF cb] obtain e' where e': "err'' = Some e'" by auto
  show ?case
    using Cons.prems cb e' Cons.IH [of e' acc''] by (cases "truthy r") auto
qed

lemma every_one_per_example:
  assumes "every (exampleCallback rt ty loc) (None, acc) raw = (None, acc')"
    and "kind ty \<noteq> STRING"
  shows "length acc' = length acc + length raw"
  using assms
proof (induction raw arbitrary: acc)
  case Nil
  then show ?case by simp
next
  case (Cons example raw)
  obtain r err'' acc'' where cb: "exampleCallback rt ty loc (None, acc) example = (r, (err'', acc''))"
    by (metis prod_cases3)
  show ?case
  proof (cases err'')
    case None
    from callback_no_error [OF cb [unfolded None] Cons.prems(2)]
    have t: "truthy r" and l: "length acc'' = Suc (length acc)" by simp_all
    from Cons.prems(1) cb None t
    have "every (exampleCallback rt ty loc) (None, acc'') raw = (None, acc')" by simp
    from Cons.IH [OF this Cons.prems(2)] l show ?thesis by simp
  next
    case (Some e)
    with Cons.prems(1) cb every_keeps_error [of rt ty loc e acc'' raw None acc']
    show ?thesis by (cases "truthy r") auto
  qed
qed

lemma examples_one_per_tag:
  assumes "extractPathParam co rt p tt lt = Returns (Ok pp)"
    and "paramType pp \<noteq> StringType"
    and "rawExamples p = Some raw" "raw \<noteq> []"
  shows "\<exists>exs. examples pp = Some exs \<and> length exs = length raw"
proof -
  from assms(1) obtain ty where ty: "paramType pp = ty"
    and ex: "examples pp = (case extractPathParamExamples rt p ty of
                              Returns (Some (Ok exs)) \<Rightarrow> Some exs | _ \<Rightarrow> None)"
    and noerr: "\<forall>e. extractPathParamExamples rt p ty \<noteq> Returns (Some (Err e))"
    and nothrow: "extractPathParamExamples rt p ty \<noteq> Throws"
    by (auto simp: extractPathParam_def Let_def
           split: option.splits Result.splits Completion.splits if_splits)
  from assms(2) ty have k: "kind ty \<noteq> STRING" by (cases ty) auto
  obtain err acc where ev: "every (exampleCallback rt ty (propertyLocus p)) (None, []) raw = (err, acc)"
    by (metis surj_pair)
  from noerr assms(3,4) ev have "err = None"
    by (cases err) (auto simp: extractPathParamExamples_def split: if_splits)
  with ev every_one_per_example [OF _ k] have len: "length acc = length raw" by fastforce
  from noerr nothrow assms(3,4) ev \<open>err = None\<close>
  have "extractPathParamExamples rt p ty = Returns (Some (Ok acc))"
    by (auto simp: extractPathParamExamples_def Let_def split: if_splits Completion.splits)
  with ex len show ?thesis by simp
qed

text \<open>
  C10. The \<open>examples\<close> field of a parsed path parameter should be present exactly when the
  property has an \<open>@example\<close> tag, and hold one entry for each tag. It is present exactly
  then (\<open>examples_present_iff\<close>), and for a type other than STRING it holds one entry for
  each tag (\<open>examples_one_per_tag\<close>). For a STRING property with one tag whose literal is
  not quoted, the callback drops the example (the defect of C1): the property has one tag,
  and \<open>extractPathParam\<close> returns the path parameter with a list of no examples.
\<close>

theorem C10_examples_field_without_entries:
  "length (filter (\<lambda>t. fst t = ''example'')
      (docTags (the (propertyJsDoc (sampleProperty ''id'' None StringType [exampleComment ''ex'' ''abc''])))))
   = 1
   \<and> extractPathParam sampleCollaborators rt
        (sampleProperty ''id'' None StringType [exampleComment ''ex'' ''abc'']) () ()
      = Returns (Ok \<lparr>paramName = ''id'', paramType = StringType, description = Some [],
                     examples = Some []\<rparr>)"
  by (simp add: parser_defs string_defs sample_defs)

section \<open>Properties of the generator\<close>

subsection \<open>Route registration\<close>

lemma isRouteRegistration_route:
  "isRouteRegistration (generateEndpointRoute im api endpointName endpoint)"
  by (simp add: isRouteRegistration_def generateEndpointRoute_def)

lemma filter_routes:
  "filter isRouteRegistration
     (map (\<lambda>(endpointName, endpoint). generateEndpointRoute im api endpointName endpoint) es)
   = map (\<lambda>(endpointName, endpoint). generateEndpointRoute im api endpointName endpoint) es"
  by (induction es) (auto simp: isRouteRegistration_route)

lemma filter_imports:
  "filter isRouteRegistration (map (\<lambda>n. ImportDeclaration (f n) (g n)) ns) = []"
  by (induction ns) (simp_all add: isRouteRegistration_def)

text \<open>
  C6. The generated server is the printed list of statements \<open>expressServerStatements\<close>.
  The route registrations among these statements are exactly the
  statements that \<open>generateEndpointRoute\<close> builds, one for each endpoint of the Api in the
  order of its entries. The statement for an endpoint calls the method of \<open>app\<close> named by
  the endpoint's HTTP method in lower case, with the route string and an arrow function
  marked \<open>async\<close> that takes \<open>req\<close> and \<open>res\<close>. The route string is the concatenation, in
  path order, of the content of each static component and of a colon followed by the name
  for each dynamic component.
\<close>

theorem C6_one_route_per_endpoint:
  "generateExpressServerSource im api = outputTypeScriptSource im (expressServerStatements im api)
   \<and> filter isRouteRegistration (expressServerStatements im api)
   = map (\<lambda>(endpointName, endpoint). generateEndpointRoute im api endpointName endpoint)
       (endpoints api)
   \<and> (\<exists>body. generateEndpointRoute im api endpointName endpoint
        = ExpressionStatement
            (CallExpression
               (PropertyAccess (Identifier ''app'') (toLowerCase (httpMethod endpoint)))
               [StringLiteral (routePath (path endpoint)),
                ArrowFunction [AsyncKeyword] [Parameter ''req'' None, Parameter ''res'' None]
                  (Block body True)]))
   \<and> routePath [] = []
   \<and> routePath (StaticPathComponent content # components) = content @ routePath components
   \<and> routePath (DynamicPathComponent name t # components) = '':'' @ name @ routePath components"
proof -
  have "filter isRouteRegistration (expressServerStatements im api)
   = map (\<lambda>(endpointName, endpoint). generateEndpointRoute im api endpointName endpoint)
       (endpoints api)"
    unfolding expressServerStatements_def
    by (simp add: filter_routes filter_imports) (simp add: isRouteRegistration_def)
  then show ?thesis
    by (simp add: generateExpressServerSource_def generateEndpointRoute_def routePath_def)
qed

text \<open>
  The Api with the endpoints \<open>getUser\<close> and \<open>updateItem\<close> has two registrations, and the
  one of \<open>getUser\<close> is \<open>app.get("/users/:id", async (req, res) => ...)\<close>.
\<close>

theorem C6_one_route_per_endpoint_witness:
  "filter isRouteRegistration (expressServerStatements sampleImports sampleApi)
   = [generateEndpointRoute sampleImports sampleApi ''getUser'' getUser,
      generateEndpointRoute sampleImports sampleApi ''updateItem'' updateItem]
   \<and> (\<exists>body. generateEndpointRoute sampleImports sampleApi ''getUser'' getUser
        = ExpressionStatement
            (CallExpression (PropertyAccess (Identifier ''app'') ''get'')
               [StringLiteral ''/users/:id'',
                ArrowFunction [AsyncKeyword] [Parameter ''req'' None, Parameter ''res'' None]
                  (Block body True)]))"
proof -
  have lower: "toLowerCase ''GET'' = ''get''" by code_simp
  show ?thesis
    using C6_one_route_per_endpoint [of sampleImports sampleApi "''getUser''" getUser "''/users/''" "[]" "''id''" Int32]
    by (simp add: sampleApi_def getUser_def lower routePath_def)
qed

subsection \<open>Custom error branches\<close>

text \<open>
  C7. The statements that handle the response start with one \<open>if\<close> statement for each key
  of \<open>customErrorTypes\<close>, in the order of the keys: its condition is the strict equality of
  \<open>response.status\<close> and the numeric literal of the status code, it has no \<open>else\<close>, and its
  block validates \<open>response.data\<close> with the validator of the custom error of that status
  code and the message "Invalid error response for status" followed by the code, sends the
  status and the data, and ends with \<open>return\<close>. The \<open>if\<close> statement that tells a successful
  response from a default error comes after all of them, followed by the two statements
  that send the status and the data.
\<close>

theorem C7_custom_error_branches_first:
  "take (length (customErrorTypes endpoint)) (generateValidateAndSendResponse im endpointName endpoint)
   = map (\<lambda>statusCode.
        IfStatement
          (BinaryExpression (PropertyAccess (Identifier ''response'') ''status'')
             EqualsEqualsEqualsToken (NumericLiteral statusCode))
          (Block
             [validateStatement im (PropertyAccess (Identifier ''response'') ''data'')
                (validatorName im
                   (endpointPropertyTypeName im endpointName ''customError'' (Some statusCode)))
                (''Invalid error response for status '' @ statusCode),
              ExpressionStatement
                (CallExpression (PropertyAccess (Identifier ''res'') ''status'')
                   [PropertyAccess (Identifier ''response'') ''status'']),
              ExpressionStatement
                (CallExpression (PropertyAccess (Identifier ''res'') ''json'')
                   [PropertyAccess (Identifier ''response'') ''data'']),
              ReturnStatement]
             True)
          None)
       (map fst (customErrorTypes endpoint))
   \<and> drop (length (customErrorTypes endpoint))
         (generateValidateAndSendResponse im endpointName endpoint)
     = [IfStatement
          (BinaryExpression
             (BinaryExpression (PropertyAccess (Identifier ''response'') ''status'')
                GreaterThanEqualsToken (NumericLiteral ''200''))
             AmpersandAmpersandToken
             (BinaryExpression (PropertyAccess (Identifier ''response'') ''status'')
                LessThanToken (NumericLiteral ''300'')))
          (Block
             [validateStatement im (PropertyAccess (Identifier ''response'') ''data'')
                (validatorName im (endpointPropertyTypeName im endpointName ''response'' None))
                ''Invalid successful response'']
             True)
          (Some
             (validateStatement im (PropertyAccess (Identifier ''response'') ''data'')
                (validatorName im (endpointPropertyTypeName im endpointName ''defaultError'' None))
                ''Invalid error response'')),
        ExpressionStatement
          (CallExpression (PropertyAccess (Identifier ''res'') ''status'')
             [PropertyAccess (Identifier ''response'') ''status'']),
        ExpressionStatement
          (CallExpression (PropertyAccess (Identifier ''res'') ''json'')
             [PropertyAccess (Identifier ''response'') ''data''])]"
  by (simp add: generateValidateAndSendResponse_def customErrorBranch_def sendStatusAndData_def
        createStrictEquality_def createLogicalAnd_def comp_def)

text \<open>
  For \<open>getUser\<close>, whose only custom error has the status code 404, the first statement is
  the branch for 404 and three statements follow it.
\<close>

theorem C7_custom_error_branches_first_witness:
  "take 1 (generateValidateAndSendResponse sampleImports ''getUser'' getUser)
   = [IfStatement
        (BinaryExpression (PropertyAccess (Identifier ''response'') ''status'')
           EqualsEqualsEqualsToken (NumericLiteral ''404''))
        (Block
           [ExpressionStatement
              (CallExpression (Identifier ''validate'')
                 [PropertyAccess (Identifier ''response'') ''data'',
                  Identifier ''validate_getUser_customError_404'',
                  StringLiteral ''Invalid error response for status 404'']),
            ExpressionStatement
              (CallExpression (PropertyAccess (Identifier ''res'') ''status'')
                 [PropertyAccess (Identifier ''response'') ''status'']),
            ExpressionStatement
              (CallExpression (PropertyAccess (Identifier ''res'') ''json'')
                 [PropertyAccess (Identifier ''response'') ''data'']),
            ReturnStatement]
           True)
        None]
   \<and> length (drop 1 (generateValidateAndSendResponse sampleImports ''getUser'' getUser)) = 3"
proof -
  have n: "length (customErrorTypes getUser) = 1" by (simp add: getUser_def)
  have c: "map fst (customErrorTypes getUser) = [''404'']" by (simp add: getUser_def)
  show ?thesis
    using C7_custom_error_branches_first [of getUser sampleImports "''getUser''"]
    unfolding n c by (simp add: sampleImports_def)
qed

subsection \<open>The call of the endpoint function\<close>

lemma compact_dynamic:
  "compact (map (\<lambda>pathComponent.
          case pathComponent of
            DynamicPathComponent name t \<Rightarrow> Some (f name t)
          | StaticPathComponent content \<Rightarrow> None) cs)
   = [f name t. DynamicPathComponent name t \<leftarrow> cs]"
  by (induction cs) (auto split: PathComponent.splits)

text \<open>
  C8. The body of the generated handler holds, between the statements that read the request
  and those that handle the response, the declaration of \<open>response\<close> as the awaited call of
  the function named after the endpoint. Its arguments are, in this order: the identifier
  \<open>request\<close> if and only if the request type is not void, then one identifier for each
  dynamic component of the path in path order, then one identifier for each header in the
  order of the entries of \<open>headers\<close>.
\<close>

theorem C8_handler_call_arguments:
  "(\<exists>before. generateEndpointRoute im api endpointName endpoint
      = ExpressionStatement
          (CallExpression
             (PropertyAccess (Identifier ''app'') (toLowerCase (httpMethod endpoint)))
             [StringLiteral (routePath (path endpoint)),
              ArrowFunction [AsyncKeyword] [Parameter ''req'' None, Parameter ''res'' None]
                (Block
                   (before
                    @ [VariableStatement
                         [(''response'',
                           AwaitExpression
                             (CallExpression (Identifier endpointName)
                                ((if isVoid im api (requestType endpoint) then []
                                  else [Identifier ''request''])
                                 @ [Identifier name. DynamicPathComponent name t \<leftarrow> path endpoint]
                                 @ [Identifier headerName. (headerName, header) \<leftarrow> headers endpoint])))]
                         Const]
                    @ generateValidateAndSendResponse im endpointName endpoint)
                   True)]))"
proof -
  have args: "handlerArguments im api endpoint
      = (if isVoid im api (requestType endpoint) then [] else [Identifier ''request''])
        @ [Identifier name. DynamicPathComponent name t \<leftarrow> path endpoint]
        @ [Identifier headerName. (headerName, header) \<leftarrow> headers endpoint]"
    by (auto simp: handlerArguments_def compact_dynamic)
  show ?thesis
    unfolding generateEndpointRoute_def args by blast
qed

text \<open>
  For \<open>updateItem\<close>, with a request body, the path parameters \<open>shop\<close> and \<open>item\<close> and the
  headers \<open>token\<close> and \<open>trace\<close>, the call is
  \<open>await updateItem(request, shop, item, token, trace)\<close>.
\<close>

theorem C8_handler_call_arguments_witness:
  "\<exists>before.
     generateEndpointRoute sampleImports sampleApi ''updateItem'' updateItem
     = ExpressionStatement
         (CallExpression (PropertyAccess (Identifier ''app'') ''put'')
            [StringLiteral ''/shops/:shop/items/:item'',
             ArrowFunction [AsyncKeyword] [Parameter ''req'' None, Parameter ''res'' None]
               (Block
                  (before
                   @ [VariableStatement
                        [(''response'',
                          AwaitExpression
                            (CallExpression (Identifier ''updateItem'')
                               [Identifier ''request'', Identifier ''shop'', Identifier ''item'',
                                Identifier ''token'', Identifier ''trace'']))]
                        Const]
                   @ generateValidateAndSendResponse sampleImports ''updateItem'' updateItem)
                  True)])"
proof -
  have lower: "toLowerCase ''PUT'' = ''put''" by code_simp
  show ?thesis
    using C8_handler_call_arguments [of sampleImports sampleApi "''updateItem''" updateItem]
    by (simp add: updateItem_def sampleImports_def lower routePath_def)
qed

subsection \<open>The stub of an endpoint\<close>

text \<open>
  C9. The stub is the printed list of statements \<open>endpointHandlerStatements\<close>. These
  statements are an import of the referenced type names, if there are
  any, and one function declaration: exported and \<open>async\<close>, named after the endpoint. Its
  parameters are \<open>request\<close> with the node of the request type if and only if the request
  type is not void, then one parameter for each dynamic component of the path with the node
  of its type, then one for each header with the node of its type. Its return type is the
  promise of the union of the object types \<open>{status: 200, data: responseType}\<close>, one
  \<open>{status: parseInt(code), data: type}\<close> for each custom error, where \<open>code\<close> is the key of
  the custom error, and \<open>{status: NUMBER, data: defaultErrorType}\<close>. Its body is the single
  statement that throws \<open>new Error("Endpoint <name> is not yet implemented!")\<close>.
\<close>

theorem C9_stub_signature:
  "generateEndpointHandlerSource im api endpointName endpoint
   = outputTypeScriptSource im (endpointHandlerStatements im api endpointName endpoint)
   \<and> endpointHandlerStatements im api endpointName endpoint
   = (if getTypeNamesForEndpoint im endpoint \<noteq> []
      then [ImportDeclaration (NamedImports (getTypeNamesForEndpoint im endpoint)) ''../types'']
      else [])
     @ [FunctionDeclaration [ExportKeyword, AsyncKeyword] endpointName
          ((if isVoid im api (requestType endpoint) then []
            else [Parameter ''request'' (Some (typeNode im (requestType endpoint)))])
           @ [Parameter name (Some (typeNode im t)). DynamicPathComponent name t \<leftarrow> path endpoint]
           @ [Parameter headerName (Some (typeNode im (headerType header))).
                (headerName, header) \<leftarrow> headers endpoint])
          (promiseTypeNode im
             (unionType im
                ([objectType im
                    [(''status'', integerConstant im (numberLiteral im 200)),
                     (''data'', responseType endpoint)]]
                 @ [objectType im
                      [(''status'', integerConstant im (parseInt im statusCode)), (''data'', t)].
                      (statusCode, t) \<leftarrow> customErrorTypes endpoint]
                 @ [objectType im
                      [(''status'', NUMBER im), (''data'', defaultErrorType endpoint)]])))
          (Block
             [ThrowStatement
                (NewExpression (Identifier ''Error'')
                   [StringLiteral (''Endpoint '' @ endpointName @ '' is not yet implemented!'')])]
             True)]"
proof -
  have params: "handlerParameters im api endpoint
      = (if isVoid im api (requestType endpoint) then []
            else [Parameter ''request'' (Some (typeNode im (requestType endpoint)))])
           @ [Parameter name (Some (typeNode im t)). DynamicPathComponent name t \<leftarrow> path endpoint]
           @ [Parameter headerName (Some (typeNode im (headerType header))).
                (headerName, header) \<leftarrow> headers endpoint]"
    by (auto simp: handlerParameters_def compact_dynamic)
  have results: "handlerResultTypes im endpoint
      = [objectType im
                    [(''status'', integerConstant im (numberLiteral im 200)),
                     (''data'', responseType endpoint)]]
                 @ [objectType im
                      [(''status'', integerConstant im (parseInt im statusCode)), (''data'', t)].
                      (statusCode, t) \<leftarrow> customErrorTypes endpoint]
                 @ [objectType im
                      [(''status'', NUMBER im), (''data'', defaultErrorType endpoint)]]"
    by (auto simp: handlerResultTypes_def)
  show ?thesis
    by (simp add: generateEndpointHandlerSource_def endpointHandlerStatements_def Let_def
          params results del: append.simps)
qed

text \<open>The stub of \<open>getUser\<close>, whose custom error has the status code 404.\<close>

theorem C9_stub_signature_witness:
  "endpointHandlerStatements sampleImports sampleApi ''getUser'' getUser
   = [ImportDeclaration (NamedImports [''User'', ''Failure'']) ''../types'',
      FunctionDeclaration [ExportKeyword, AsyncKeyword] ''getUser''
        [Parameter ''id'' (Some (TypeNodeOf Int32))]
        (PromiseOf
           (UnionOf
              [ObjectOf [(''status'', IntegerConstantType (Whole 200)),
                         (''data'', TypeReference ''User'')],
               ObjectOf [(''status'', IntegerConstantType (Whole 404)),
                         (''data'', TypeReference ''NotFound'')],
               ObjectOf [(''status'', NumberT), (''data'', TypeReference ''Failure'')]]))
        (Block
           [ThrowStatement
              (NewExpression (Identifier ''Error'')
                 [StringLiteral ''Endpoint getUser is not yet implemented!''])]
           True)]
   \<and> parseInt sampleImports ''404'' = Whole 404"
proof -
  have v: "sampleParseInt ''404'' = Whole 404" by code_simp
  have n: "getTypeNamesForEndpoint sampleImports getUser = [''User'', ''Failure'']"
    by (simp add: getTypeNamesForEndpoint_def sampleImports_def getUser_def uniq_def)
  show ?thesis
    using C9_stub_signature [where im = sampleImports and api = sampleApi
                   and endpointName = "''getUser''" and endpoint = getUser] v n
    by (simp add: sampleImports_def getUser_def)
qed

end
